theory Spec2Isabelle
  imports Main "HOL-Library.Word"
begin

section \<open>VA-API surfaces of mpv (video/vaapi.c)\<close>

text \<open>
  The file video/vaapi.c talks to the hardware through libva. Every libva entry point is
  an external call: the model records each call, with its arguments, at the end of a
  trace (a \<open>call list\<close>) and takes what the call returns from a \<open>backend\<close>, a record of
  response functions that read the trace up to and including the call. The backend is
  thus any deterministic driver whose answers may depend on everything asked so far.
  Logging (mp_err, MP_VERBOSE, MP_ERR) has no effect on the values computed and is left
  out; talloc allocations are taken to succeed.
\<close>

subsection \<open>Constants and types of libva\<close>

type_synonym VAStatus = int
type_synonym VADisplay = nat
type_synonym VAGenericID = "32 word"

definition VA_STATUS_SUCCESS :: VAStatus where
  "VA_STATUS_SUCCESS = 0"

definition VA_STATUS_ERROR_OPERATION_FAILED :: VAStatus where
  "VA_STATUS_ERROR_OPERATION_FAILED = 1"

definition VA_INVALID_ID :: VAGenericID where
  "VA_INVALID_ID = 0xffffffff"

text \<open>The four-character codes, as VA_FOURCC packs them (first character lowest).\<close>

definition VA_FOURCC_YV12 :: "32 word" where "VA_FOURCC_YV12 = 0x32315659"
definition VA_FOURCC_I420 :: "32 word" where "VA_FOURCC_I420 = 0x30323449"
definition VA_FOURCC_IYUV :: "32 word" where "VA_FOURCC_IYUV = 0x56555949"
definition VA_FOURCC_NV12 :: "32 word" where "VA_FOURCC_NV12 = 0x3231564E"
definition VA_FOURCC_UYVY :: "32 word" where "VA_FOURCC_UYVY = 0x59565955"
definition VA_FOURCC_YUY2 :: "32 word" where "VA_FOURCC_YUY2 = 0x32595559"
definition VA_FOURCC_RGBA :: "32 word" where "VA_FOURCC_RGBA = 0x41424752"
definition VA_FOURCC_RGBX :: "32 word" where "VA_FOURCC_RGBX = 0x58424752"
definition VA_FOURCC_BGRA :: "32 word" where "VA_FOURCC_BGRA = 0x41524742"
definition VA_FOURCC_BGRX :: "32 word" where "VA_FOURCC_BGRX = 0x58524742"

record VAImageFormat =
  fourcc :: "32 word"
  byte_order :: "32 word"
  bits_per_pixel :: "32 word"

text \<open>
  VAImage: pitches and offsets are C arrays of three slots, indexed here by plane number.
\<close>

record VAImage =
  image_id :: VAGenericID
  format :: VAImageFormat
  buf :: VAGenericID
  width :: "16 word"
  height :: "16 word"
  data_size :: "32 word"
  num_planes :: "32 word"
  pitches :: "nat \<Rightarrow> 32 word"
  offsets :: "nat \<Rightarrow> 32 word"

subsection \<open>Pixel formats and images of mpv\<close>

text \<open>
  enum mp_imgfmt (img_format.h): the enumerators this file names, and \<open>IMGFMT_OTHER\<close>
  for every other one.
\<close>

datatype mp_imgfmt =
    IMGFMT_NONE
  | IMGFMT_VAAPI
  | IMGFMT_420P
  | IMGFMT_NV12
  | IMGFMT_UYVY
  | IMGFMT_YUYV
  | IMGFMT_RGBA
  | IMGFMT_BGRA
  | IMGFMT_OTHER nat

text \<open>
  struct mp_image (mp_image.h), the fields this file reads or writes: planes and stride
  are C arrays of four slots, a plane pointer is an address (0 is NULL).
\<close>

record mp_image =
  imgfmt :: mp_imgfmt
  mpi_w :: int
  mpi_h :: int
  planes :: "nat \<Rightarrow> nat"
  stride :: "nat \<Rightarrow> int"

subsection \<open>The format table\<close>

record fmtentry =
  va :: "32 word"
  mp :: mp_imgfmt

definition va_to_imgfmt :: "fmtentry list" where
  "va_to_imgfmt =
    [\<lparr>va = VA_FOURCC_YV12, mp = IMGFMT_420P\<rparr>,
     \<lparr>va = VA_FOURCC_I420, mp = IMGFMT_420P\<rparr>,
     \<lparr>va = VA_FOURCC_IYUV, mp = IMGFMT_420P\<rparr>,
     \<lparr>va = VA_FOURCC_NV12, mp = IMGFMT_NV12\<rparr>,
     \<lparr>va = VA_FOURCC_UYVY, mp = IMGFMT_UYVY\<rparr>,
     \<lparr>va = VA_FOURCC_YUY2, mp = IMGFMT_YUYV\<rparr>,
     \<lparr>va = VA_FOURCC_RGBA, mp = IMGFMT_RGBA\<rparr>,
     \<lparr>va = VA_FOURCC_RGBX, mp = IMGFMT_RGBA\<rparr>,
     \<lparr>va = VA_FOURCC_BGRA, mp = IMGFMT_BGRA\<rparr>,
     \<lparr>va = VA_FOURCC_BGRX, mp = IMGFMT_BGRA\<rparr>,
     \<lparr>va = 0, mp = IMGFMT_NONE\<rparr>]"

text \<open>
  Both scans stop at the entry whose \<open>va\<close> is 0 (the loop condition \<open>entry->va\<close>);
  the table ends with such an entry, so the scan never leaves it.
\<close>

fun fourcc_to_imgfmt_scan :: "fmtentry list \<Rightarrow> 32 word \<Rightarrow> mp_imgfmt" where
  "fourcc_to_imgfmt_scan [] fcc = IMGFMT_NONE"
| "fourcc_to_imgfmt_scan (entry # rest) fcc =
     (if va entry = 0 then IMGFMT_NONE
      else if va entry = fcc then mp entry
      else fourcc_to_imgfmt_scan rest fcc)"

definition va_fourcc_to_imgfmt :: "32 word \<Rightarrow> mp_imgfmt" where
  "va_fourcc_to_imgfmt fcc = fourcc_to_imgfmt_scan va_to_imgfmt fcc"

fun fourcc_from_imgfmt_scan :: "fmtentry list \<Rightarrow> mp_imgfmt \<Rightarrow> 32 word" where
  "fourcc_from_imgfmt_scan [] fmt = 0"
| "fourcc_from_imgfmt_scan (entry # rest) fmt =
     (if va entry = 0 then 0
      else if mp entry = fmt then va entry
      else fourcc_from_imgfmt_scan rest fmt)"

definition va_fourcc_from_imgfmt :: "mp_imgfmt \<Rightarrow> 32 word" where
  "va_fourcc_from_imgfmt fmt = fourcc_from_imgfmt_scan va_to_imgfmt fmt"

subsection \<open>The capability registry and the descriptor lookup\<close>

text \<open>
  struct va_image_formats is the list of its entries (\<open>num\<close> is their number); a
  pointer to it that may be NULL is an option. The loop of va_image_format_from_imgfmt
  returns the first entry with the wanted fourcc. The C code narrows the fourcc to an
  int and compares it with the unsigned field, which converts it back: the comparison is
  the one of the 32-bit values.
\<close>

fun format_scan :: "VAImageFormat list \<Rightarrow> 32 word \<Rightarrow> VAImageFormat option" where
  "format_scan [] fcc = None"
| "format_scan (entry # rest) fcc =
     (if fourcc entry = fcc then Some entry else format_scan rest fcc)"

definition va_image_format_from_imgfmt ::
  "VAImageFormat list option \<Rightarrow> mp_imgfmt \<Rightarrow> VAImageFormat option" where
  "va_image_format_from_imgfmt formats fmt =
     (let fcc = va_fourcc_from_imgfmt fmt in
      case formats of
        None \<Rightarrow> None
      | Some entries \<Rightarrow>
          if entries = [] \<or> fcc = 0 then None else format_scan entries fcc)"


subsection \<open>Contexts, surfaces, calls and the backend\<close>

text \<open>
  struct mp_vaapi_ctx (vaapi.h): the display handle (0 is NULL) and the registry pointer.
  The log is left out.
\<close>

record mp_vaapi_ctx =
  display :: VADisplay
  image_formats :: "VAImageFormat list option"

text \<open>
  va_surface_priv_t and struct va_surface; \<open>surface_p\<close> is the field \<open>p\<close>, and the
  fields of the private part carry the prefix \<open>p_\<close>.
\<close>

record va_surface_priv_t =
  p_ctx :: mp_vaapi_ctx
  p_display :: VADisplay
  p_image :: VAImage
  is_derived :: bool

record va_surface =
  surface_id :: VAGenericID
  surface_w :: int
  surface_h :: int
  rt_format :: int
  surface_p :: va_surface_priv_t

text \<open>
  The external calls, in the order of their first use in the file, with the arguments
  that vary. \<open>MpImageAlloc\<close>, \<open>MpImagePoolGet\<close> and \<open>MpImageCopy\<close> are the calls
  into mpv's image code (mp_image.c, mp_image_pool.c); \<open>MpImageCopy dst src\<close> is
  mp_image_copy(dst, src).
\<close>

datatype call =
    VaInitialize VADisplay
  | VaTerminate VADisplay
  | VaMaxNumImageFormats VADisplay
  | VaQueryImageFormats VADisplay
  | VaCreateSurfaces VADisplay int int int
  | VaDestroySurfaces VADisplay VAGenericID
  | VaDestroyImage VADisplay VAGenericID
  | VaDeriveImage VADisplay VAGenericID
  | VaCreateImage VADisplay VAImageFormat int int
  | VaMapBuffer VADisplay VAGenericID
  | VaUnmapBuffer VADisplay VAGenericID
  | VaPutImage2 VADisplay VAGenericID VAGenericID int int
  | VaGetImage VADisplay VAGenericID int int VAGenericID
  | VaSyncSurface VADisplay VAGenericID
  | MpImageAlloc mp_imgfmt int int
  | MpImagePoolGet nat mp_imgfmt int int
  | MpImageCopy mp_image mp_image

text \<open>
  What the driver answers. Each function reads the trace that ends with the call being
  answered: \<open>va_status\<close> is the VAStatus returned, \<open>va_formats\<close> the entries that
  vaQueryImageFormats stores (as many as the count it reports), \<open>va_image\<close> what
  vaDeriveImage or vaCreateImage leaves in the VAImage it is handed (as a function of what
  was there), \<open>va_data\<close> the address vaMapBuffer stores, \<open>va_surface_id\<close> the id
  vaCreateSurfaces stores.
\<close>

record backend =
  va_status :: "call list \<Rightarrow> VAStatus"
  va_formats :: "call list \<Rightarrow> VAImageFormat list"
  va_image :: "call list \<Rightarrow> VAImage \<Rightarrow> VAImage"
  va_data :: "call list \<Rightarrow> nat"
  va_surface_id :: "call list \<Rightarrow> VAGenericID"

definition check_va_status :: "VAStatus \<Rightarrow> bool" where
  "check_va_status status = (if status \<noteq> VA_STATUS_SUCCESS then False else True)"

subsection \<open>Context creation\<close>

text \<open>
  va_get_formats: the value of vaMaxNumImageFormats only sizes the local array; the
  entries stored are the ones the query reports. On a failed query the context is left
  as it was.
\<close>

definition va_get_formats :: "backend \<Rightarrow> mp_vaapi_ctx \<Rightarrow> call list \<Rightarrow> mp_vaapi_ctx \<times> call list" where
  "va_get_formats b c tr =
     (let tr1 = tr @ [VaMaxNumImageFormats (display c)];
          tr2 = tr1 @ [VaQueryImageFormats (display c)];
          status = va_status b tr2
      in if \<not> check_va_status status then (c, tr2)
         else (c\<lparr>image_formats := Some (va_formats b tr2)\<rparr>, tr2))"

text \<open>
  va_initialize returns the context, or NULL (\<open>None\<close>). At the label \<open>error\<close> the display
  is closed only when the context had been allocated and its display is not NULL.
\<close>

definition va_initialize :: "backend \<Rightarrow> VADisplay \<Rightarrow> call list \<Rightarrow> mp_vaapi_ctx option \<times> call list" where
  "va_initialize b disp tr =
     (let tr1 = tr @ [VaInitialize disp];
          status = va_status b tr1
      in if \<not> check_va_status status then (None, tr1)
         else
           let res = \<lparr>display = disp, image_formats = None\<rparr>;
               (res1, tr2) = va_get_formats b res tr1
           in if image_formats res1 = None
              then (None, if display res1 \<noteq> 0 then tr2 @ [VaTerminate (display res1)] else tr2)
              else (Some res1, tr2))"

subsection \<open>Surfaces and their mapped view\<close>

definition zero_format :: VAImageFormat where
  "zero_format = \<lparr>fourcc = 0, byte_order = 0, bits_per_pixel = 0\<rparr>"

definition zero_image :: VAImage where
  "zero_image =
     \<lparr>image_id = 0, format = zero_format, buf = 0, width = 0, height = 0, data_size = 0,
      num_planes = 0, pitches = (\<lambda>i. 0), offsets = (\<lambda>i. 0)\<rparr>"

text \<open>
  va_surface_destroy takes the pointer (NULL is \<open>None\<close>) and returns the trace: the
  surface is freed. The statuses of vaDestroyImage and vaDestroySurfaces are discarded by
  the code, so the function does not read the backend.
\<close>

definition va_surface_destroy :: "va_surface option \<Rightarrow> call list \<Rightarrow> call list" where
  "va_surface_destroy surface tr =
     (case surface of
        None \<Rightarrow> tr
      | Some s \<Rightarrow>
          if surface_id s \<noteq> VA_INVALID_ID then
            let p = surface_p s;
                tr1 = (if image_id (p_image p) \<noteq> VA_INVALID_ID
                       then tr @ [VaDestroyImage (p_display p) (image_id (p_image p))]
                       else tr)
            in tr1 @ [VaDestroySurfaces (p_display p) (surface_id s)]
          else tr)"

text \<open>
  alloc_surface returns the new surface (in C, wrapped into an image whose release
  callback is va_surface_destroy); the private part is zeroed by talloc_zero, then
  image_id and buf are set to VA_INVALID_ID.
\<close>

definition alloc_surface ::
  "backend \<Rightarrow> mp_vaapi_ctx \<Rightarrow> int \<Rightarrow> int \<Rightarrow> int \<Rightarrow> call list \<Rightarrow> va_surface option \<times> call list" where
  "alloc_surface b c rtf sw sh tr =
     (let tr1 = tr @ [VaCreateSurfaces (display c) sw sh rtf];
          status = va_status b tr1;
          new_id = va_surface_id b tr1
      in if \<not> check_va_status status then (None, tr1)
         else
           (Some \<lparr>surface_id = new_id, surface_w = sw, surface_h = sh, rt_format = rtf,
                  surface_p =
                    \<lparr>p_ctx = c, p_display = display c,
                     p_image = zero_image\<lparr>image_id := VA_INVALID_ID, buf := VA_INVALID_ID\<rparr>,
                     is_derived = False\<rparr>\<rparr>,
            tr1))"

text \<open>
  The functions below take the surface by value and return it updated (the pointer is not
  NULL; the early return for a NULL surface has nothing to return it in).
\<close>

definition set_image :: "va_surface \<Rightarrow> VAImage \<Rightarrow> va_surface" where
  "set_image s im = s\<lparr>surface_p := (surface_p s)\<lparr>p_image := im\<rparr>\<rparr>"

definition set_image_id :: "va_surface \<Rightarrow> VAGenericID \<Rightarrow> va_surface" where
  "set_image_id s i = set_image s ((p_image (surface_p s))\<lparr>image_id := i\<rparr>)"

definition set_is_derived :: "va_surface \<Rightarrow> bool \<Rightarrow> va_surface" where
  "set_is_derived s d = s\<lparr>surface_p := (surface_p s)\<lparr>is_derived := d\<rparr>\<rparr>"

definition va_surface_image_destroy :: "va_surface \<Rightarrow> call list \<Rightarrow> va_surface \<times> call list" where
  "va_surface_image_destroy s tr =
     (if image_id (p_image (surface_p s)) = VA_INVALID_ID then (s, tr)
      else
        let p = surface_p s;
            tr1 = tr @ [VaDestroyImage (p_display p) (image_id (p_image p))]
        in (set_is_derived (set_image_id s VA_INVALID_ID) False, tr1))"

text \<open>
  Lines 239 to 250 of va_surface_image_alloc: vaDeriveImage writes the surface's VAImage;
  a success is kept only when fourcc, width and height are the requested ones, otherwise
  the derived image is destroyed and the status replaced by a failure. Returns the status
  that line 251 tests.
\<close>

definition derive_image ::
  "backend \<Rightarrow> va_surface \<Rightarrow> VAImageFormat \<Rightarrow> call list \<Rightarrow> VAStatus \<times> va_surface \<times> call list" where
  "derive_image b s fmt tr =
     (let tr1 = tr @ [VaDeriveImage (p_display (surface_p s)) (surface_id s)];
          s1 = set_image s (va_image b tr1 (p_image (surface_p s)));
          status = va_status b tr1;
          im = p_image (surface_p s1)
      in if status = VA_STATUS_SUCCESS then
           if fourcc (format im) = fourcc fmt \<and> uint (width im) = surface_w s1
              \<and> uint (height im) = surface_h s1
           then (status, set_is_derived s1 True, tr1)
           else (VA_STATUS_ERROR_OPERATION_FAILED, s1,
                 tr1 @ [VaDestroyImage (p_display (surface_p s1)) (image_id im)])
         else (status, s1, tr1))"

text \<open>Lines 251 to 259: the independent allocation.\<close>

definition create_image ::
  "backend \<Rightarrow> va_surface \<Rightarrow> VAImageFormat \<Rightarrow> call list \<Rightarrow> VAImage option \<times> va_surface \<times> call list" where
  "create_image b s fmt tr =
     (let s1 = set_image_id s VA_INVALID_ID;
          tr1 = tr @ [VaCreateImage (p_display (surface_p s1)) fmt (surface_w s1) (surface_h s1)];
          s2 = set_image s1 (va_image b tr1 (p_image (surface_p s1)));
          status = va_status b tr1
      in if \<not> check_va_status status then (None, set_image_id s2 VA_INVALID_ID, tr1)
         else (Some (p_image (surface_p s2)), s2, tr1))"

text \<open>
  va_surface_image_alloc returns the surface's VAImage, or NULL. In va_surface_download
  the format handed in points into that very VAImage; the call then returns at line 236
  before anything is written, so passing the format by value loses nothing.
\<close>

definition va_surface_image_alloc ::
  "backend \<Rightarrow> va_surface \<Rightarrow> VAImageFormat option \<Rightarrow> call list
     \<Rightarrow> VAImage option \<times> va_surface \<times> call list" where
  "va_surface_image_alloc b s fmt_ptr tr =
     (case fmt_ptr of
        None \<Rightarrow> (None, s, tr)
      | Some fmt \<Rightarrow>
          if image_id (p_image (surface_p s)) \<noteq> VA_INVALID_ID
             \<and> fourcc (format (p_image (surface_p s))) = fourcc fmt
          then (Some (p_image (surface_p s)), s, tr)
          else
            let (s1, tr1) = va_surface_image_destroy s tr;
                (status, s2, tr2) = derive_image b s1 fmt tr1
            in if status \<noteq> VA_STATUS_SUCCESS then create_image b s2 fmt tr2
               else (Some (p_image (surface_p s2)), s2, tr2))"

subsection \<open>Mapping a view\<close>

text \<open>
  Modelled from the spec: mp_image_setfmt and mp_image_set_size are in mp_image.c; of
  the image they fill in, the pixel-format tag and the dimensions are kept here. The
  image is zeroed first, so every plane pointer is NULL and every stride 0.
\<close>

definition zero_mp_image :: mp_image where
  "zero_mp_image = \<lparr>imgfmt = IMGFMT_NONE, mpi_w = 0, mpi_h = 0, planes = (\<lambda>i. 0), stride = (\<lambda>i. 0)\<rparr>"

definition mp_image_setfmt :: "mp_image \<Rightarrow> mp_imgfmt \<Rightarrow> mp_image" where
  "mp_image_setfmt mpi fmt = mpi\<lparr>imgfmt := fmt\<rparr>"

definition mp_image_set_size :: "mp_image \<Rightarrow> int \<Rightarrow> int \<Rightarrow> mp_image" where
  "mp_image_set_size mpi iw ih = mpi\<lparr>mpi_w := iw, mpi_h := ih\<rparr>"

text \<open>
  The loop over the planes, from plane \<open>i\<close> up to \<open>n\<close> planes. The pitch is an unsigned
  32-bit value stored into an int (\<open>sint\<close>); the plane pointer is the mapped address plus
  the offset. libva bounds \<open>num_planes\<close> by 3, the size of pitches and offsets.
\<close>

function map_planes :: "nat \<Rightarrow> nat \<Rightarrow> VAImage \<Rightarrow> nat \<Rightarrow> mp_image \<Rightarrow> mp_image" where
  "map_planes i n im data mpi =
     (if i < n then
        map_planes (i + 1) n im data
          (mpi\<lparr>stride := (stride mpi)(i := sint (pitches im i)),
               planes := (planes mpi)(i := data + unat (offsets im i))\<rparr>)
      else mpi)"
  by pat_completeness auto
termination
  by (relation "measure (\<lambda>(i, n, im, data, mpi). n - i)") auto

declare map_planes.simps [simp del]

definition swap_planes_1_2 :: "mp_image \<Rightarrow> mp_image" where
  "swap_planes_1_2 mpi =
     mpi\<lparr>stride := (stride mpi)(1 := stride mpi 2, 2 := stride mpi 1),
         planes := (planes mpi)(1 := planes mpi 2, 2 := planes mpi 1)\<rparr>"

definition va_image_map ::
  "backend \<Rightarrow> mp_vaapi_ctx \<Rightarrow> VAImage \<Rightarrow> call list \<Rightarrow> mp_image option \<times> call list" where
  "va_image_map b c im tr =
     (let fmt = va_fourcc_to_imgfmt (fourcc (format im))
      in if fmt = IMGFMT_NONE then (None, tr)
         else
           let tr1 = tr @ [VaMapBuffer (display c) (buf im)];
               status = va_status b tr1;
               data = va_data b tr1
           in if \<not> check_va_status status then (None, tr1)
              else
                let mpi0 = mp_image_set_size (mp_image_setfmt zero_mp_image fmt)
                             (uint (width im)) (uint (height im));
                    mpi1 = map_planes 0 (unat (num_planes im)) im data mpi0;
                    mpi2 = (if fourcc (format im) = VA_FOURCC_YV12 then swap_planes_1_2 mpi1
                            else mpi1)
                in (Some mpi2, tr1))"

definition va_image_unmap :: "backend \<Rightarrow> mp_vaapi_ctx \<Rightarrow> VAImage \<Rightarrow> call list \<Rightarrow> bool \<times> call list" where
  "va_image_unmap b c im tr =
     (let tr1 = tr @ [VaUnmapBuffer (display c) (buf im)]
      in (check_va_status (va_status b tr1), tr1))"

subsection \<open>Upload\<close>

definition va_surface_upload ::
  "backend \<Rightarrow> va_surface \<Rightarrow> mp_image \<Rightarrow> call list \<Rightarrow> bool \<times> va_surface \<times> call list" where
  "va_surface_upload b s mpi tr =
     (case va_image_format_from_imgfmt (image_formats (p_ctx (surface_p s))) (imgfmt mpi) of
        None \<Rightarrow> (False, s, tr)
      | Some fmt \<Rightarrow>
          (case va_surface_image_alloc b s (Some fmt) tr of
             (None, s1, tr1) \<Rightarrow> (False, s1, tr1)
           | (Some _, s1, tr1) \<Rightarrow>
               let p = surface_p s1 in
               (case va_image_map b (p_ctx p) (p_image p) tr1 of
                  (None, tr2) \<Rightarrow> (False, s1, tr2)
                | (Some img, tr2) \<Rightarrow>
                    let tr3 = tr2 @ [MpImageCopy img mpi];
                        (_, tr4) = va_image_unmap b (p_ctx p) (p_image p) tr3
                    in if \<not> is_derived p then
                         let tr5 = tr4 @ [VaPutImage2 (p_display p) (surface_id s1)
                                            (image_id (p_image p)) (mpi_w mpi) (mpi_h mpi)]
                         in if \<not> check_va_status (va_status b tr5) then (False, s1, tr5)
                            else (True, s1, tr5)
                       else (True, s1, tr4))))"

subsection \<open>Download\<close>

text \<open>
  try_download returns an image (\<open>Ref\<close>), or NULL, or stops at the assertion of line
  395, which compares the format of the mapped image with the one computed from the
  requested fourcc.
\<close>

datatype download_result = Assert_failed | Null | Ref mp_image

text \<open>
  Modelled from the spec: mp_image_alloc and mp_image_pool_get are in mp_image.c and
  mp_image_pool.c; they are taken to return an image of the format and size asked for,
  whose storage is not modelled. The optional pool is an option of its handle.
\<close>

definition new_mp_image :: "mp_imgfmt \<Rightarrow> int \<Rightarrow> int \<Rightarrow> mp_image" where
  "new_mp_image fmt iw ih = mp_image_set_size (mp_image_setfmt zero_mp_image fmt) iw ih"

definition try_download ::
  "backend \<Rightarrow> va_surface \<Rightarrow> VAImageFormat \<Rightarrow> nat option \<Rightarrow> call list
     \<Rightarrow> download_result \<times> va_surface \<times> call list" where
  "try_download b s fmt pool tr =
     (let ifmt = va_fourcc_to_imgfmt (fourcc fmt)
      in if ifmt = IMGFMT_NONE then (Null, s, tr)
         else
           (case va_surface_image_alloc b s (Some fmt) tr of
              (None, s1, tr1) \<Rightarrow> (Null, s1, tr1)
            | (Some _, s1, tr1) \<Rightarrow>
                let p = surface_p s1;
                    im = p_image p;
                    tr2 = (if \<not> is_derived p
                           then tr1 @ [VaGetImage (p_display p) (surface_id s1)
                                         (surface_w s1) (surface_h s1) (image_id im)]
                           else tr1)
                in if \<not> is_derived p \<and> va_status b tr2 \<noteq> VA_STATUS_SUCCESS then (Null, s1, tr2)
                   else
                     (case va_image_map b (p_ctx p) im tr2 of
                        (None, tr3) \<Rightarrow> (Null, s1, tr3)
                      | (Some tmp, tr3) \<Rightarrow>
                          if imgfmt tmp \<noteq> ifmt then (Assert_failed, s1, tr3)
                          else
                            let tr4 = tr3 @ [case pool of
                                               Some pl \<Rightarrow> MpImagePoolGet pl ifmt (mpi_w tmp) (mpi_h tmp)
                                             | None \<Rightarrow> MpImageAlloc ifmt (mpi_w tmp) (mpi_h tmp)];
                                dst = new_mp_image ifmt (mpi_w tmp) (mpi_h tmp);
                                tr5 = tr4 @ [MpImageCopy dst tmp];
                                (_, tr6) = va_image_unmap b (p_ctx p) im tr5
                            in (Ref dst, s1, tr6))))"

text \<open>The loop of va_surface_download over the registry entries.\<close>

fun download_scan ::
  "backend \<Rightarrow> VAImageFormat list \<Rightarrow> nat option \<Rightarrow> va_surface \<Rightarrow> call list
     \<Rightarrow> download_result \<times> va_surface \<times> call list" where
  "download_scan b [] pool s tr = (Null, s, tr)"
| "download_scan b (fmt # rest) pool s tr =
     (case try_download b s fmt pool tr of
        (Null, s1, tr1) \<Rightarrow> download_scan b rest pool s1 tr1
      | r \<Rightarrow> r)"

text \<open>
  va_surface_download. A context made by va_initialize has a registry; with the NULL
  pointer the C code reads through it, and the model returns \<open>Null\<close> there.
\<close>

definition va_surface_download ::
  "backend \<Rightarrow> va_surface \<Rightarrow> nat option \<Rightarrow> call list \<Rightarrow> download_result \<times> va_surface \<times> call list" where
  "va_surface_download b s pool tr =
     (let c = p_ctx (surface_p s);
          tr1 = tr @ [VaSyncSurface (p_display (surface_p s)) (surface_id s)]
      in if \<not> check_va_status (va_status b tr1) then (Null, s, tr1)
         else
           let (r, s2, tr2) =
                 (if image_id (p_image (surface_p s)) \<noteq> VA_INVALID_ID
                  then try_download b s (format (p_image (surface_p s))) pool tr1
                  else (Null, s, tr1))
           in (case r of
                 Null \<Rightarrow>
                   (case image_formats c of
                      None \<Rightarrow> (Null, s2, tr2)
                    | Some entries \<Rightarrow> download_scan b entries pool s2 tr2)
               | _ \<Rightarrow> (r, s2, tr2)))"

subsection \<open>Predicates of the properties\<close>

text \<open>
  The flag \<open>is_derived\<close> is set only on a surface that has a view: the invariant of
  the surfaces this file makes.
\<close>

definition surface_inv :: "va_surface \<Rightarrow> bool" where
  "surface_inv s = (is_derived (surface_p s) \<longrightarrow> image_id (p_image (surface_p s)) \<noteq> VA_INVALID_ID)"

text \<open>
  What libva promises of vaDeriveImage: a call that reports success has stored a valid
  image id.
\<close>

definition derive_contract :: "backend \<Rightarrow> bool" where
  "derive_contract b =
     (\<forall>tr d sid old. va_status b (tr @ [VaDeriveImage d sid]) = VA_STATUS_SUCCESS \<longrightarrow>
        image_id (va_image b (tr @ [VaDeriveImage d sid]) old) \<noteq> VA_INVALID_ID)"

text \<open>
  The derive operation of the backend, asked for the view of surface \<open>s\<close> after trace
  \<open>tr\<close>, reports success and an image of the requested fourcc and of the surface's size.
\<close>

definition derive_matches :: "backend \<Rightarrow> va_surface \<Rightarrow> VAImageFormat \<Rightarrow> call list \<Rightarrow> bool" where
  "derive_matches b s fmt tr =
     (let tr1 = tr @ [VaDeriveImage (p_display (surface_p s)) (surface_id s)];
          im = va_image b tr1 (p_image (surface_p s))
      in va_status b tr1 = VA_STATUS_SUCCESS \<and> fourcc (format im) = fourcc fmt
         \<and> uint (width im) = surface_w s \<and> uint (height im) = surface_h s)"

text \<open>Kinds of calls.\<close>

fun is_put_image :: "call \<Rightarrow> bool" where
  "is_put_image (VaPutImage2 d sid iid pw ph) = True"
| "is_put_image c = False"

fun is_get_image :: "call \<Rightarrow> bool" where
  "is_get_image (VaGetImage d sid gw gh iid) = True"
| "is_get_image c = False"

fun is_view_call :: "call \<Rightarrow> bool" where
  "is_view_call (VaDestroyImage d iid) = True"
| "is_view_call (VaDeriveImage d sid) = True"
| "is_view_call (VaCreateImage d fmt cw ch) = True"
| "is_view_call c = False"

fun is_derive_image :: "call \<Rightarrow> bool" where
  "is_derive_image (VaDeriveImage d sid) = True"
| "is_derive_image c = False"

fun is_map_buffer :: "call \<Rightarrow> bool" where
  "is_map_buffer (VaMapBuffer d bid) = True"
| "is_map_buffer c = False"

text \<open>
  The layout the backend reports for a VAImage mapped at address \<open>data\<close>: pitch and
  address of each plane the image has; the slots beyond \<open>num_planes\<close> stay 0.
\<close>

definition va_layout_stride :: "VAImage \<Rightarrow> nat \<Rightarrow> int" where
  "va_layout_stride im p = (if p < unat (num_planes im) then sint (pitches im p) else 0)"

definition va_layout_plane :: "VAImage \<Rightarrow> nat \<Rightarrow> nat \<Rightarrow> nat" where
  "va_layout_plane im data p = (if p < unat (num_planes im) then data + unat (offsets im p) else 0)"

text \<open>
  Trying the formats of a list in order, each attempt returning NULL: the surface and
  trace after the last one; \<open>None\<close> when some attempt does not return NULL.
\<close>

fun failed_attempts ::
  "backend \<Rightarrow> VAImageFormat list \<Rightarrow> nat option \<Rightarrow> va_surface \<Rightarrow> call list
     \<Rightarrow> (va_surface \<times> call list) option" where
  "failed_attempts b [] pool s tr = Some (s, tr)"
| "failed_attempts b (fmt # rest) pool s tr =
     (case try_download b s fmt pool tr of
        (Null, s1, tr1) \<Rightarrow> failed_attempts b rest pool s1 tr1
      | _ \<Rightarrow> None)"

text \<open>
  The formats va_surface_download goes through: the format of the cached view when there
  is one, then the registry entries in their order.
\<close>

definition download_candidates :: "va_surface \<Rightarrow> VAImageFormat list \<Rightarrow> VAImageFormat list" where
  "download_candidates s entries =
     (if image_id (p_image (surface_p s)) \<noteq> VA_INVALID_ID then [format (p_image (surface_p s))]
      else []) @ entries"

subsection \<open>Example drivers and surfaces\<close>

text \<open>
  Concrete inputs for the instances below: a driver that answers every call with one
  status, a driver that cannot derive and creates images of one fourcc only, a driver
  whose vaDeriveImage yields a 64x32 NV12 image; a context, a surface of 64x32 with a
  given view, a view that is absent, and a software image.
\<close>

definition const_backend :: "VAStatus \<Rightarrow> VAImageFormat list \<Rightarrow> backend" where
  "const_backend st fmts =
     \<lparr>va_status = (\<lambda>tr. st), va_formats = (\<lambda>tr. fmts), va_image = (\<lambda>tr old. old),
      va_data = (\<lambda>tr. 4096), va_surface_id = (\<lambda>tr. 1)\<rparr>"

definition nv12_format :: VAImageFormat where
  "nv12_format = \<lparr>fourcc = VA_FOURCC_NV12, byte_order = 1, bits_per_pixel = 12\<rparr>"

definition example_ctx :: mp_vaapi_ctx where
  "example_ctx = \<lparr>display = 7, image_formats = Some [nv12_format]\<rparr>"

definition example_image :: VAImage where
  "example_image =
     \<lparr>image_id = 5, format = nv12_format, buf = 9, width = 64, height = 32, data_size = 3072,
      num_planes = 2, pitches = (\<lambda>i. 64), offsets = (\<lambda>i. if i = 0 then 0 else 2048)\<rparr>"

definition absent_image :: VAImage where
  "absent_image = zero_image\<lparr>image_id := VA_INVALID_ID, buf := VA_INVALID_ID\<rparr>"

definition example_surface :: "VAGenericID \<Rightarrow> VAImage \<Rightarrow> bool \<Rightarrow> va_surface" where
  "example_surface sid im d =
     \<lparr>surface_id = sid, surface_w = 64, surface_h = 32, rt_format = 1,
      surface_p = \<lparr>p_ctx = example_ctx, p_display = 7, p_image = im, is_derived = d\<rparr>\<rparr>"

definition example_mpi :: mp_image where
  "example_mpi =
     \<lparr>imgfmt = IMGFMT_NV12, mpi_w = 64, mpi_h = 32,
      planes = (\<lambda>i. if i = 0 then 8192 else if i = 1 then 10240 else 0),
      stride = (\<lambda>i. if i < 2 then 64 else 0)\<rparr>"

definition fallback_backend :: "32 word \<Rightarrow> backend" where
  "fallback_backend good =
     \<lparr>va_status = (\<lambda>tr. case last tr of
                           VaDeriveImage d sid \<Rightarrow> 1
                         | VaCreateImage d f cw ch \<Rightarrow> (if fourcc f = good then 0 else 1)
                         | _ \<Rightarrow> 0),
      va_formats = (\<lambda>tr. []),
      va_image = (\<lambda>tr old. case last tr of
                               VaCreateImage d f cw ch \<Rightarrow>
                                 (if fourcc f = good then example_image\<lparr>format := f\<rparr> else old)
                             | _ \<Rightarrow> old),
      va_data = (\<lambda>tr. 4096),
      va_surface_id = (\<lambda>tr. 1)\<rparr>"

definition derive_backend :: backend where
  "derive_backend =
     \<lparr>va_status = (\<lambda>tr. 0),
      va_formats = (\<lambda>tr. [nv12_format]),
      va_image = (\<lambda>tr old. example_image),
      va_data = (\<lambda>tr. 4096),
      va_surface_id = (\<lambda>tr. 3)\<rparr>"

text \<open>
  Further inputs: a three-plane YV12 view, a driver whose vaPutImage fails, and a surface
  of a context that advertises RGBA, BGRA, NV12 and UYVY, in this order.
\<close>

definition yv12_image :: VAImage where
  "yv12_image =
     \<lparr>image_id = 6, format = \<lparr>fourcc = VA_FOURCC_YV12, byte_order = 1, bits_per_pixel = 12\<rparr>,
      buf = 10, width = 64, height = 32, data_size = 3072, num_planes = 3,
      pitches = (\<lambda>i. if i = 0 then 64 else 32),
      offsets = (\<lambda>i. if i = 0 then 0 else if i = 1 then 2048 else 2560)\<rparr>"

definition put_failing_backend :: backend where
  "put_failing_backend =
     \<lparr>va_status = (\<lambda>tr. case last tr of
                           VaDeriveImage d sid \<Rightarrow> 1
                         | VaPutImage2 d sid iid pw ph \<Rightarrow> 1
                         | _ \<Rightarrow> 0),
      va_formats = (\<lambda>tr. []),
      va_image = (\<lambda>tr old. case last tr of
                               VaCreateImage d f cw ch \<Rightarrow> example_image\<lparr>format := f\<rparr>
                             | _ \<Rightarrow> old),
      va_data = (\<lambda>tr. 4096),
      va_surface_id = (\<lambda>tr. 1)\<rparr>"

definition format_of :: "32 word \<Rightarrow> VAImageFormat" where
  "format_of fcc = \<lparr>fourcc = fcc, byte_order = 1, bits_per_pixel = 32\<rparr>"

definition search_registry :: "VAImageFormat list" where
  "search_registry =
     [format_of VA_FOURCC_RGBA, format_of VA_FOURCC_BGRA, nv12_format, format_of VA_FOURCC_UYVY]"

definition search_surface :: "VAImage \<Rightarrow> va_surface" where
  "search_surface im =
     \<lparr>surface_id = 3, surface_w = 64, surface_h = 32, rt_format = 1,
      surface_p = \<lparr>p_ctx = \<lparr>display = 7, image_formats = Some search_registry\<rparr>,
                   p_display = 7, p_image = im, is_derived = False\<rparr>\<rparr>"

text \<open>
  A driver that fails the calls of a given kind and succeeds on every other one; its
  vaDeriveImage and vaCreateImage, when they succeed, store the 64x32 view.
\<close>

definition failing_backend :: "(call \<Rightarrow> bool) \<Rightarrow> backend" where
  "failing_backend fails =
     \<lparr>va_status = (\<lambda>tr. if fails (last tr) then 1 else 0),
      va_formats = (\<lambda>tr. [nv12_format]),
      va_image = (\<lambda>tr old. if fails (last tr) then old
                             else case last tr of
                                    VaCreateImage d f cw ch \<Rightarrow> example_image\<lparr>format := f\<rparr>
                                  | VaDeriveImage d sid \<Rightarrow> example_image
                                  | _ \<Rightarrow> old),
      va_data = (\<lambda>tr. 4096),
      va_surface_id = (\<lambda>tr. 3)\<rparr>"

section \<open>Properties\<close>

lemmas fourcc_defs =
  VA_FOURCC_YV12_def VA_FOURCC_I420_def VA_FOURCC_IYUV_def VA_FOURCC_NV12_def
  VA_FOURCC_UYVY_def VA_FOURCC_YUY2_def VA_FOURCC_RGBA_def VA_FOURCC_RGBX_def
  VA_FOURCC_BGRA_def VA_FOURCC_BGRX_def







subsection \<open>The descriptor lookup\<close>




lemmas surface_upd_defs = set_image_def set_image_id_def set_is_derived_def

lemmas example_defs =
  const_backend_def nv12_format_def example_ctx_def example_image_def absent_image_def
  example_surface_def example_mpi_def fallback_backend_def derive_backend_def zero_image_def
  zero_format_def VA_INVALID_ID_def VA_STATUS_SUCCESS_def

subsection \<open>Context creation\<close>

text \<open>
  C2. Context creation returns no context when vaInitialize reports a failure and when
  vaQueryImageFormats does; when both report success it returns the context whose
  registry is the list the query stored, whatever its length. An empty list is therefore
  not a failure: the check after va_get_formats is on the registry pointer only.
\<close>

theorem va_initialize_result:
  "(va_status b (tr @ [VaInitialize disp]) \<noteq> VA_STATUS_SUCCESS \<longrightarrow>
      va_initialize b disp tr = (None, tr @ [VaInitialize disp]))
   \<and> (va_status b (tr @ [VaInitialize disp]) = VA_STATUS_SUCCESS
        \<and> va_status b (tr @ [VaInitialize disp, VaMaxNumImageFormats disp, VaQueryImageFormats disp])
            \<noteq> VA_STATUS_SUCCESS \<longrightarrow>
      fst (va_initialize b disp tr) = None)
   \<and> (va_status b (tr @ [VaInitialize disp]) = VA_STATUS_SUCCESS
        \<and> va_status b (tr @ [VaInitialize disp, VaMaxNumImageFormats disp, VaQueryImageFormats disp])
            = VA_STATUS_SUCCESS \<longrightarrow>
      va_initialize b disp tr =
        (Some \<lparr>display = disp,
               image_formats = Some (va_formats b
                 (tr @ [VaInitialize disp, VaMaxNumImageFormats disp, VaQueryImageFormats disp]))\<rparr>,
         tr @ [VaInitialize disp, VaMaxNumImageFormats disp, VaQueryImageFormats disp]))"
  by (simp add: va_initialize_def va_get_formats_def check_va_status_def Let_def)

text \<open>A driver that fails every call, and one that succeeds and advertises NV12.\<close>

theorem va_initialize_result_witness:
  "va_initialize (const_backend 1 []) 7 [] = (None, [VaInitialize 7])
   \<and> va_initialize (const_backend 0 [\<lparr>fourcc = VA_FOURCC_NV12, byte_order = 1, bits_per_pixel = 12\<rparr>]) 7 []
       = (Some \<lparr>display = 7, image_formats =
                  Some [\<lparr>fourcc = VA_FOURCC_NV12, byte_order = 1, bits_per_pixel = 12\<rparr>]\<rparr>,
          [VaInitialize 7, VaMaxNumImageFormats 7, VaQueryImageFormats 7])"
  using va_initialize_result [of "const_backend 1 []" "[]" 7]
    va_initialize_result
      [of "const_backend 0 [\<lparr>fourcc = VA_FOURCC_NV12, byte_order = 1, bits_per_pixel = 12\<rparr>]" "[]" 7]
  by (simp add: const_backend_def VA_STATUS_SUCCESS_def)

text \<open>
  A driver that reports success and an empty format list: va_initialize returns a
  context, with an empty registry.
\<close>

theorem va_initialize_empty_registry_counterexample:
  "va_status (const_backend 0 []) [VaInitialize 7, VaMaxNumImageFormats 7, VaQueryImageFormats 7]
     = VA_STATUS_SUCCESS
   \<and> va_formats (const_backend 0 []) [VaInitialize 7, VaMaxNumImageFormats 7, VaQueryImageFormats 7] = []
   \<and> fst (va_initialize (const_backend 0 []) 7 [])
       = Some \<lparr>display = 7, image_formats = Some []\<rparr>"
  by (simp add: va_initialize_def va_get_formats_def check_va_status_def Let_def
        const_backend_def VA_STATUS_SUCCESS_def)

subsection \<open>The view of a surface\<close>

text \<open>
  C3. When the surface has a view (image_id is not VA_INVALID_ID) whose fourcc is the
  one of the requested descriptor, va_surface_image_alloc returns that view, leaves the
  surface as it is and makes no call: the trace is unchanged.
\<close>

theorem image_alloc_cache_hit:
  assumes "image_id (p_image (surface_p s)) \<noteq> VA_INVALID_ID"
    and "fourcc (format (p_image (surface_p s))) = fourcc fmt"
  shows "va_surface_image_alloc b s (Some fmt) tr = (Some (p_image (surface_p s)), s, tr)"
  using assms by (simp add: va_surface_image_alloc_def)

text \<open>A surface with an NV12 view, asked for NV12, on a driver that would fail every call.\<close>

theorem image_alloc_cache_hit_witness:
  "image_id (p_image (surface_p (example_surface 3 example_image False))) \<noteq> VA_INVALID_ID
   \<and> fourcc (format (p_image (surface_p (example_surface 3 example_image False)))) = fourcc nv12_format
   \<and> va_surface_image_alloc (const_backend 1 []) (example_surface 3 example_image False)
        (Some nv12_format) [VaSyncSurface 7 3]
       = (Some example_image, example_surface 3 example_image False, [VaSyncSurface 7 3])"
proof -
  have h1: "image_id (p_image (surface_p (example_surface 3 example_image False))) \<noteq> VA_INVALID_ID"
    by (simp add: example_surface_def example_image_def VA_INVALID_ID_def)
  have h2: "fourcc (format (p_image (surface_p (example_surface 3 example_image False))))
              = fourcc nv12_format"
    by (simp add: example_surface_def example_image_def)
  have h3: "p_image (surface_p (example_surface 3 example_image False)) = example_image"
    by (simp add: example_surface_def)
  from image_alloc_cache_hit [OF h1 h2, of "const_backend 1 []" "[VaSyncSurface 7 3]"] h1 h2 h3
  show ?thesis by simp
qed

text \<open>Destroying, deriving and creating the view, one step each.\<close>

lemma va_surface_image_destroy_absent:
  "va_surface_image_destroy s tr = (s1, tr1) \<Longrightarrow>
     image_id (p_image (surface_p s1)) = VA_INVALID_ID
     \<and> (surface_inv s \<longrightarrow> \<not> is_derived (surface_p s1))
     \<and> surface_id s1 = surface_id s \<and> surface_w s1 = surface_w s \<and> surface_h s1 = surface_h s
     \<and> p_display (surface_p s1) = p_display (surface_p s)
     \<and> p_ctx (surface_p s1) = p_ctx (surface_p s)"
  by (auto simp: va_surface_image_destroy_def surface_inv_def surface_upd_defs Let_def
        split: if_splits)

lemma derive_image_match:
  "derive_matches b s fmt tr \<Longrightarrow>
     derive_image b s fmt tr =
       (VA_STATUS_SUCCESS,
        set_is_derived (set_image s (va_image b (tr @ [VaDeriveImage (p_display (surface_p s)) (surface_id s)])
                                       (p_image (surface_p s)))) True,
        tr @ [VaDeriveImage (p_display (surface_p s)) (surface_id s)])"
  by (simp add: derive_matches_def derive_image_def surface_upd_defs Let_def)

lemma derive_image_mismatch:
  "\<not> derive_matches b s fmt tr \<Longrightarrow> derive_image b s fmt tr = (st, s2, tr2) \<Longrightarrow>
     st \<noteq> VA_STATUS_SUCCESS
     \<and> (\<exists>mid. tr2 = tr @ VaDeriveImage (p_display (surface_p s)) (surface_id s) # mid
              \<and> (\<forall>e \<in> set mid. \<exists>d i. e = VaDestroyImage d i))
     \<and> is_derived (surface_p s2) = is_derived (surface_p s)
     \<and> surface_id s2 = surface_id s \<and> surface_w s2 = surface_w s \<and> surface_h s2 = surface_h s
     \<and> p_display (surface_p s2) = p_display (surface_p s)
     \<and> p_ctx (surface_p s2) = p_ctx (surface_p s)"
  by (auto simp: derive_matches_def derive_image_def surface_upd_defs Let_def
        VA_STATUS_SUCCESS_def VA_STATUS_ERROR_OPERATION_FAILED_def split: if_splits)

lemma create_image_result:
  "create_image b s fmt tr = (r, s', tr') \<Longrightarrow>
     tr' = tr @ [VaCreateImage (p_display (surface_p s)) fmt (surface_w s) (surface_h s)]
     \<and> is_derived (surface_p s') = is_derived (surface_p s)
     \<and> surface_id s' = surface_id s \<and> surface_w s' = surface_w s \<and> surface_h s' = surface_h s
     \<and> p_display (surface_p s') = p_display (surface_p s)
     \<and> p_ctx (surface_p s') = p_ctx (surface_p s)
     \<and> (va_status b tr' = VA_STATUS_SUCCESS \<longrightarrow> r = Some (p_image (surface_p s')))
     \<and> (va_status b tr' \<noteq> VA_STATUS_SUCCESS \<longrightarrow>
          r = None \<and> image_id (p_image (surface_p s')) = VA_INVALID_ID)"
  by (auto simp: create_image_def check_va_status_def surface_upd_defs Let_def split: if_splits)

lemma image_alloc_fallback_aux:
  assumes miss: "\<not> (image_id (p_image (surface_p s)) \<noteq> VA_INVALID_ID
                     \<and> fourcc (format (p_image (surface_p s))) = fourcc fmt)"
    and inv: "surface_inv s"
    and destroy: "va_surface_image_destroy s tr = (s1, tr1)"
    and alloc: "va_surface_image_alloc b s (Some fmt) tr = (r, s', tr')"
  shows "\<not> derive_matches b s1 fmt tr1 \<longrightarrow> \<not> is_derived (surface_p s')"
proof
  assume nm: "\<not> derive_matches b s1 fmt tr1"
  note d = va_surface_image_destroy_absent [OF destroy]
  obtain st s2 tr2 where di: "derive_image b s1 fmt tr1 = (st, s2, tr2)"
    by (cases "derive_image b s1 fmt tr1") auto
  note m = derive_image_mismatch [OF nm di]
  from miss destroy alloc di m have ci: "create_image b s2 fmt tr2 = (r, s', tr')"
    by (auto simp: va_surface_image_alloc_def)
  from create_image_result [OF ci] m d inv show "\<not> is_derived (surface_p s')" by simp
qed

text \<open>
  C4. On a surface that has no view of the requested fourcc, va_surface_image_alloc
  first releases the view it has, then asks the backend to derive one. If the derive
  reports success with the requested fourcc and the surface's size, the derived view is
  returned and the flag is set. If it reports a failure or another
  fourcc, width or height, no error is returned for that: the next call (after the
  release of the unfit derived image) is vaCreateImage with the requested descriptor and
  the surface's size, the result is the created view when vaCreateImage succeeds, and NULL
  when it fails. NULL is returned only when the derive did not fit and vaCreateImage
  failed. The flag records the path taken: it is set on the derived path, and unset on
  the independent one for every surface that satisfied the invariant on entry (the
  independent path leaves the flag as the release of the old view left it).
\<close>

theorem image_alloc_derive_fallback:
  assumes miss: "\<not> (image_id (p_image (surface_p s)) \<noteq> VA_INVALID_ID
                     \<and> fourcc (format (p_image (surface_p s))) = fourcc fmt)"
    and destroy: "va_surface_image_destroy s tr = (s1, tr1)"
    and alloc: "va_surface_image_alloc b s (Some fmt) tr = (r, s', tr')"
  shows "(derive_matches b s1 fmt tr1 \<longrightarrow>
            r = Some (p_image (surface_p s')) \<and> is_derived (surface_p s')
            \<and> tr' = tr1 @ [VaDeriveImage (p_display (surface_p s)) (surface_id s)])
       \<and> (\<not> derive_matches b s1 fmt tr1 \<longrightarrow>
            (\<exists>mid. tr' = tr1 @ VaDeriveImage (p_display (surface_p s)) (surface_id s) # mid
                       @ [VaCreateImage (p_display (surface_p s)) fmt (surface_w s) (surface_h s)]
                  \<and> (\<forall>e \<in> set mid. \<exists>d i. e = VaDestroyImage d i))
            \<and> (va_status b tr' = VA_STATUS_SUCCESS \<longrightarrow>
                 r = Some (p_image (surface_p s'))
                 \<and> (surface_inv s \<longrightarrow> \<not> is_derived (surface_p s')))
            \<and> (va_status b tr' \<noteq> VA_STATUS_SUCCESS \<longrightarrow> r = None))
       \<and> (r = None \<longleftrightarrow> \<not> derive_matches b s1 fmt tr1 \<and> va_status b tr' \<noteq> VA_STATUS_SUCCESS)"
proof -
  note d = va_surface_image_destroy_absent [OF destroy]
  from d have nd: "surface_inv s \<longrightarrow> \<not> is_derived (surface_p s1)" by simp
  show ?thesis
  proof (cases "derive_matches b s1 fmt tr1")
    case True
    from derive_image_match [OF True] miss destroy alloc d
    have "r = Some (p_image (surface_p s')) \<and> is_derived (surface_p s')
            \<and> tr' = tr1 @ [VaDeriveImage (p_display (surface_p s)) (surface_id s)]"
      by (auto simp: va_surface_image_alloc_def surface_upd_defs)
    with True show ?thesis by simp
  next
    case False
    obtain st s2 tr2 where di: "derive_image b s1 fmt tr1 = (st, s2, tr2)"
      by (cases "derive_image b s1 fmt tr1") auto
    note m = derive_image_mismatch [OF False di]
    from m have st: "st \<noteq> VA_STATUS_SUCCESS" by simp
    from miss destroy alloc di st have ci: "create_image b s2 fmt tr2 = (r, s', tr')"
      by (auto simp: va_surface_image_alloc_def)
    note c = create_image_result [OF ci]
    from m obtain mid where mid: "tr2 = tr1 @ VaDeriveImage (p_display (surface_p s1)) (surface_id s1) # mid"
      "\<forall>e \<in> set mid. \<exists>d i. e = VaDestroyImage d i" by blast
    have tr': "tr' = tr1 @ VaDeriveImage (p_display (surface_p s)) (surface_id s) # mid
                       @ [VaCreateImage (p_display (surface_p s)) fmt (surface_w s) (surface_h s)]"
      using c m d mid(1) by simp
    have fl: "surface_inv s \<longrightarrow> \<not> is_derived (surface_p s')" using c m nd by simp
    from False tr' mid(2) fl c show ?thesis by auto
  qed
qed

text \<open>
  A fresh surface on a driver that cannot derive and creates NV12 (fallback taken, flag
  unset), on one that cannot derive and creates RGBA only (NULL), and on one that derives
  a fitting image (flag set).
\<close>

theorem image_alloc_derive_fallback_witness:
  "surface_inv (example_surface 3 absent_image False)
   \<and> \<not> derive_matches (fallback_backend VA_FOURCC_NV12) (example_surface 3 absent_image False)
         nv12_format []
   \<and> fst (va_surface_image_alloc (fallback_backend VA_FOURCC_NV12)
            (example_surface 3 absent_image False) (Some nv12_format) []) \<noteq> None
   \<and> \<not> is_derived (surface_p (fst (snd (va_surface_image_alloc (fallback_backend VA_FOURCC_NV12)
            (example_surface 3 absent_image False) (Some nv12_format) []))))
   \<and> fst (va_surface_image_alloc (fallback_backend VA_FOURCC_RGBA)
            (example_surface 3 absent_image False) (Some nv12_format) []) = None
   \<and> derive_matches derive_backend (example_surface 3 absent_image False) nv12_format []
   \<and> is_derived (surface_p (fst (snd (va_surface_image_alloc derive_backend
            (example_surface 3 absent_image False) (Some nv12_format) []))))"
proof -
  let ?s = "example_surface 3 absent_image False"
  have miss: "\<not> (image_id (p_image (surface_p ?s)) \<noteq> VA_INVALID_ID
                  \<and> fourcc (format (p_image (surface_p ?s))) = fourcc nv12_format)"
    by (simp add: example_defs)
  have inv: "surface_inv ?s" by (simp add: surface_inv_def example_defs)
  have destroy: "va_surface_image_destroy ?s [] = (?s, [])"
    by (simp add: va_surface_image_destroy_def example_defs)
  have nm: "\<not> derive_matches (fallback_backend good) ?s nv12_format []" for good
    by (simp add: derive_matches_def Let_def example_defs)
  have m: "derive_matches derive_backend ?s nv12_format []"
    by (simp add: derive_matches_def Let_def example_defs)
  have st: "va_status (fallback_backend good) (x # pre @ [VaCreateImage d nv12_format cw ch])
              = (if VA_FOURCC_NV12 = good then VA_STATUS_SUCCESS else 1)" for good x pre d cw ch
    by (simp add: example_defs)
  obtain r1 s1 t1 where a1: "va_surface_image_alloc (fallback_backend VA_FOURCC_NV12) ?s
      (Some nv12_format) [] = (r1, s1, t1)" by (metis prod_cases3)
  obtain r2 s2 t2 where a2: "va_surface_image_alloc (fallback_backend VA_FOURCC_RGBA) ?s
      (Some nv12_format) [] = (r2, s2, t2)" by (metis prod_cases3)
  obtain r3 s3 t3 where a3: "va_surface_image_alloc derive_backend ?s
      (Some nv12_format) [] = (r3, s3, t3)" by (metis prod_cases3)
  note f1 = image_alloc_derive_fallback [OF miss destroy a1]
  note f2 = image_alloc_derive_fallback [OF miss destroy a2]
  note f3 = image_alloc_derive_fallback [OF miss destroy a3]
  from f1 nm [of VA_FOURCC_NV12] obtain mid1 where
    t1: "t1 = [] @ VaDeriveImage (p_display (surface_p ?s)) (surface_id ?s) # mid1
              @ [VaCreateImage (p_display (surface_p ?s)) nv12_format (surface_w ?s) (surface_h ?s)]"
    by blast
  from t1 have s1ok: "va_status (fallback_backend VA_FOURCC_NV12) t1 = VA_STATUS_SUCCESS"
    using st [of VA_FOURCC_NV12] by simp
  from f2 nm [of VA_FOURCC_RGBA] obtain mid2 where
    t2: "t2 = [] @ VaDeriveImage (p_display (surface_p ?s)) (surface_id ?s) # mid2
              @ [VaCreateImage (p_display (surface_p ?s)) nv12_format (surface_w ?s) (surface_h ?s)]"
    by blast
  from t2 have s2bad: "va_status (fallback_backend VA_FOURCC_RGBA) t2 \<noteq> VA_STATUS_SUCCESS"
    using st [of VA_FOURCC_RGBA] by (simp add: fourcc_defs VA_STATUS_SUCCESS_def)
  from f1 nm [of VA_FOURCC_NV12] s1ok inv have c1: "r1 \<noteq> None \<and> \<not> is_derived (surface_p s1)"
    by blast
  from f2 nm [of VA_FOURCC_RGBA] s2bad have c2: "r2 = None" by blast
  from f3 m have c3: "is_derived (surface_p s3)" by blast
  from inv nm [of VA_FOURCC_NV12] m c1 c2 c3 a1 a2 a3 show ?thesis by simp
qed

subsection \<open>Traces and the invariant of the operations\<close>

lemma va_surface_image_destroy_trace:
  assumes "va_surface_image_destroy s tr = (s1, tr1)"
  shows "\<exists>evs. tr1 = tr @ evs \<and> (\<forall>e \<in> set evs. is_view_call e)"
proof (cases "image_id (p_image (surface_p s)) = VA_INVALID_ID")
  case True
  with assms have "tr1 = tr" by (simp add: va_surface_image_destroy_def)
  then show ?thesis by (intro exI [of _ "[]"]) simp
next
  case False
  with assms have "tr1 = tr @ [VaDestroyImage (p_display (surface_p s)) (image_id (p_image (surface_p s)))]"
    by (simp add: va_surface_image_destroy_def Let_def)
  then show ?thesis
    by (intro exI [of _ "[VaDestroyImage (p_display (surface_p s)) (image_id (p_image (surface_p s)))]"])
       simp
qed

lemma derive_image_trace:
  assumes "derive_image b s fmt tr = (st, s1, tr1)"
  shows "\<exists>evs. tr1 = tr @ evs \<and> (\<forall>e \<in> set evs. is_view_call e)"
proof -
  let ?d = "VaDeriveImage (p_display (surface_p s)) (surface_id s)"
  from assms have "tr1 = tr @ [?d] \<or> (\<exists>i. tr1 = tr @ [?d, VaDestroyImage (p_display (surface_p s)) i])"
    by (auto simp: derive_image_def Let_def surface_upd_defs split: if_splits)
  then show ?thesis
  proof (elim disjE exE)
    assume "tr1 = tr @ [?d]"
    then show ?thesis by (intro exI [of _ "[?d]"]) simp
  next
    fix i assume "tr1 = tr @ [?d, VaDestroyImage (p_display (surface_p s)) i]"
    then show ?thesis
      by (intro exI [of _ "[?d, VaDestroyImage (p_display (surface_p s)) i]"]) simp
  qed
qed

lemma create_image_trace:
  assumes "create_image b s fmt tr = (r, s1, tr1)"
  shows "\<exists>evs. tr1 = tr @ evs \<and> (\<forall>e \<in> set evs. is_view_call e)"
proof -
  let ?c = "VaCreateImage (p_display (surface_p s)) fmt (surface_w s) (surface_h s)"
  from assms have "tr1 = tr @ [?c]"
    by (simp add: create_image_def Let_def surface_upd_defs split: if_splits)
  then show ?thesis by (intro exI [of _ "[?c]"]) simp
qed

lemma va_surface_image_alloc_trace:
  assumes "va_surface_image_alloc b s fp tr = (r, s', tr')"
  shows "\<exists>evs. tr' = tr @ evs \<and> (\<forall>e \<in> set evs. is_view_call e)"
proof (cases fp)
  case None
  with assms show ?thesis by (simp add: va_surface_image_alloc_def)
next
  case (Some fmt)
  obtain s1 tr1 where d: "va_surface_image_destroy s tr = (s1, tr1)"
    by (cases "va_surface_image_destroy s tr") auto
  obtain st s2 tr2 where di: "derive_image b s1 fmt tr1 = (st, s2, tr2)"
    by (cases "derive_image b s1 fmt tr1") auto
  obtain r3 s3 tr3 where ci: "create_image b s2 fmt tr2 = (r3, s3, tr3)"
    by (cases "create_image b s2 fmt tr2") auto
  from va_surface_image_destroy_trace [OF d] obtain e1 where
    e1: "tr1 = tr @ e1" "\<forall>e \<in> set e1. is_view_call e" by blast
  from derive_image_trace [OF di] obtain e2 where
    e2: "tr2 = tr1 @ e2" "\<forall>e \<in> set e2. is_view_call e" by blast
  from create_image_trace [OF ci] obtain e3 where
    e3: "tr3 = tr2 @ e3" "\<forall>e \<in> set e3. is_view_call e" by blast
  from assms Some d di ci have "tr' = tr \<or> tr' = tr2 \<or> tr' = tr3"
    by (auto simp: va_surface_image_alloc_def split: if_splits)
  then consider "tr' = tr @ []" | "tr' = tr @ (e1 @ e2)" | "tr' = tr @ (e1 @ e2 @ e3)"
    using e1(1) e2(1) e3(1) by auto
  then show ?thesis
  proof cases
    case 1 then show ?thesis by (intro exI [of _ "[]"]) simp
  next
    case 2 then show ?thesis using e1(2) e2(2) by (intro exI [of _ "e1 @ e2"]) auto
  next
    case 3 then show ?thesis using e1(2) e2(2) e3(2) by (intro exI [of _ "e1 @ e2 @ e3"]) auto
  qed
qed

lemma map_planes_fields:
  "imgfmt (map_planes i n im data mpi) = imgfmt mpi
   \<and> mpi_w (map_planes i n im data mpi) = mpi_w mpi
   \<and> mpi_h (map_planes i n im data mpi) = mpi_h mpi"
proof (induction i n im data mpi rule: map_planes.induct)
  case (1 i n im data mpi)
  show ?case
  proof (cases "i < n")
    case True
    with 1 show ?thesis by (subst (1 2 3) map_planes.simps) simp
  next
    case False
    then show ?thesis by (subst (1 2 3) map_planes.simps) simp
  qed
qed

lemma map_planes_stride:
  "stride (map_planes i n im data mpi) p =
     (if i \<le> p \<and> p < n then sint (pitches im p) else stride mpi p)"
proof (induction i n im data mpi rule: map_planes.induct)
  case (1 i n im data mpi)
  show ?case
  proof (cases "i < n")
    case True
    with 1 show ?thesis by (subst map_planes.simps) auto
  next
    case False
    then show ?thesis by (subst map_planes.simps) simp
  qed
qed

lemma map_planes_planes:
  "planes (map_planes i n im data mpi) p =
     (if i \<le> p \<and> p < n then data + unat (offsets im p) else planes mpi p)"
proof (induction i n im data mpi rule: map_planes.induct)
  case (1 i n im data mpi)
  show ?case
  proof (cases "i < n")
    case True
    with 1 show ?thesis by (subst map_planes.simps) auto
  next
    case False
    then show ?thesis by (subst map_planes.simps) simp
  qed
qed

lemma va_image_map_Some:
  "va_image_map b c im tr = (Some mpi, tr') \<Longrightarrow>
     tr' = tr @ [VaMapBuffer (display c) (buf im)] \<and> va_status b tr' = VA_STATUS_SUCCESS
     \<and> imgfmt mpi = va_fourcc_to_imgfmt (fourcc (format im))"
  by (auto simp: va_image_map_def Let_def check_va_status_def mp_image_setfmt_def
        mp_image_set_size_def swap_planes_1_2_def map_planes_fields split: if_splits)

lemma va_image_map_None:
  "va_image_map b c im tr = (None, tr') \<Longrightarrow>
     tr' = tr \<or> tr' = tr @ [VaMapBuffer (display c) (buf im)]"
  by (auto simp: va_image_map_def Let_def split: if_splits)

lemma va_surface_image_alloc_inv:
  assumes con: "derive_contract b" and inv: "surface_inv s"
    and alloc: "va_surface_image_alloc b s fp tr = (r, s', tr')"
  shows "surface_inv s'"
proof (cases fp)
  case None
  with alloc inv show ?thesis by (simp add: va_surface_image_alloc_def)
next
  case (Some fmt)
  show ?thesis
  proof (cases "image_id (p_image (surface_p s)) \<noteq> VA_INVALID_ID
                \<and> fourcc (format (p_image (surface_p s))) = fourcc fmt")
    case True
    with alloc Some inv show ?thesis by (simp add: va_surface_image_alloc_def)
  next
    case miss: False
    obtain s1 tr1 where destroy: "va_surface_image_destroy s tr = (s1, tr1)"
      by (cases "va_surface_image_destroy s tr") auto
    note d = va_surface_image_destroy_absent [OF destroy]
    note fb = image_alloc_fallback_aux [OF miss inv destroy alloc [unfolded Some]]
    show ?thesis
    proof (cases "derive_matches b s1 fmt tr1")
      case True
      from derive_image_match [OF True] miss destroy alloc Some
      have s': "s' = set_is_derived (set_image s1
                  (va_image b (tr1 @ [VaDeriveImage (p_display (surface_p s1)) (surface_id s1)])
                     (p_image (surface_p s1)))) True"
        by (auto simp: va_surface_image_alloc_def)
      from True have "va_status b (tr1 @ [VaDeriveImage (p_display (surface_p s1)) (surface_id s1)])
                        = VA_STATUS_SUCCESS"
        by (simp add: derive_matches_def Let_def)
      with con have "image_id (va_image b (tr1 @ [VaDeriveImage (p_display (surface_p s1)) (surface_id s1)])
                     (p_image (surface_p s1))) \<noteq> VA_INVALID_ID"
        unfolding derive_contract_def by blast
      with s' show ?thesis by (simp add: surface_inv_def surface_upd_defs)
    next
      case False
      with fb have "\<not> is_derived (surface_p s')" by simp
      then show ?thesis by (simp add: surface_inv_def)
    qed
  qed
qed

lemma try_download_surface:
  assumes "try_download b s fmt pool tr = (r, s', tr')"
  shows "s' = s \<or> (\<exists>x t. va_surface_image_alloc b s (Some fmt) tr = (x, s', t))"
proof (cases "va_fourcc_to_imgfmt (fourcc fmt) = IMGFMT_NONE")
  case True
  with assms show ?thesis by (simp add: try_download_def)
next
  case False
  obtain x s1 t1 where a: "va_surface_image_alloc b s (Some fmt) tr = (x, s1, t1)"
    by (cases "va_surface_image_alloc b s (Some fmt) tr") auto
  have "s' = s1"
  proof (cases x)
    case None
    with assms False a show ?thesis by (simp add: try_download_def)
  next
    case (Some im)
    obtain m t3 where mp: "va_image_map b (p_ctx (surface_p s1)) (p_image (surface_p s1))
        (if \<not> is_derived (surface_p s1)
         then t1 @ [VaGetImage (p_display (surface_p s1)) (surface_id s1) (surface_w s1)
                      (surface_h s1) (image_id (p_image (surface_p s1)))]
         else t1) = (m, t3)"
      by (cases "va_image_map b (p_ctx (surface_p s1)) (p_image (surface_p s1))
        (if \<not> is_derived (surface_p s1)
         then t1 @ [VaGetImage (p_display (surface_p s1)) (surface_id s1) (surface_w s1)
                      (surface_h s1) (image_id (p_image (surface_p s1)))]
         else t1)") auto
    from assms False a Some mp show ?thesis
      by (cases m) (simp_all add: try_download_def Let_def va_image_unmap_def split: if_splits)
  qed
  with a show ?thesis by blast
qed

lemma try_download_inv:
  "derive_contract b \<Longrightarrow> surface_inv s \<Longrightarrow> try_download b s fmt pool tr = (r, s', tr') \<Longrightarrow>
     surface_inv s'"
  using try_download_surface va_surface_image_alloc_inv by blast

lemma download_scan_inv:
  "derive_contract b \<Longrightarrow> surface_inv s \<Longrightarrow> download_scan b fmts pool s tr = (r, s', tr') \<Longrightarrow>
     surface_inv s'"
proof (induction fmts arbitrary: s tr)
  case Nil
  then show ?case by simp
next
  case (Cons fmt rest)
  obtain r1 s1 tr1 where t: "try_download b s fmt pool tr = (r1, s1, tr1)"
    by (cases "try_download b s fmt pool tr") auto
  from try_download_inv [OF Cons.prems(1,2) t] have i1: "surface_inv s1" .
  show ?case
  proof (cases r1)
    case Null
    with Cons.prems(3) t have "download_scan b rest pool s1 tr1 = (r, s', tr')" by simp
    from Cons.IH [OF Cons.prems(1) i1 this] show ?thesis .
  next
    case Assert_failed
    with Cons.prems(3) t i1 show ?thesis by simp
  next
    case (Ref m)
    with Cons.prems(3) t i1 show ?thesis by simp
  qed
qed

lemma va_surface_download_inv:
  assumes con: "derive_contract b" and inv: "surface_inv s"
    and dl: "va_surface_download b s pool tr = (r, s', tr')"
  shows "surface_inv s'"
proof (cases "check_va_status (va_status b (tr @ [VaSyncSurface (p_display (surface_p s)) (surface_id s)]))")
  case False
  with dl inv show ?thesis by (simp add: va_surface_download_def Let_def)
next
  case sync: True
  let ?tr1 = "tr @ [VaSyncSurface (p_display (surface_p s)) (surface_id s)]"
  obtain r2 s2 tr2 where fast:
    "(if image_id (p_image (surface_p s)) \<noteq> VA_INVALID_ID
      then try_download b s (format (p_image (surface_p s))) pool ?tr1
      else (Null, s, ?tr1)) = (r2, s2, tr2)"
    by (metis prod_cases3)
  have i2: "surface_inv s2"
    using fast try_download_inv [OF con inv] inv by (auto split: if_splits)
  from dl sync fast have res: "(case r2 of
                 Null \<Rightarrow>
                   (case image_formats (p_ctx (surface_p s)) of
                      None \<Rightarrow> (Null, s2, tr2)
                    | Some entries \<Rightarrow> download_scan b entries pool s2 tr2)
               | _ \<Rightarrow> (r2, s2, tr2)) = (r, s', tr')"
    by (simp add: va_surface_download_def Let_def)
  show ?thesis
  proof (cases r2)
    case Null
    show ?thesis
    proof (cases "image_formats (p_ctx (surface_p s))")
      case None
      with res Null i2 show ?thesis by simp
    next
      case (Some entries)
      with res Null have "download_scan b entries pool s2 tr2 = (r, s', tr')" by simp
      from download_scan_inv [OF con i2 this] show ?thesis .
    qed
  next
    case Assert_failed
    with res i2 show ?thesis by simp
  next
    case (Ref m)
    with res i2 show ?thesis by simp
  qed
qed

lemma va_surface_upload_surface:
  assumes "va_surface_upload b s mpi tr = (r, s', tr')"
  shows "s' = s \<or> (\<exists>fmt x t. va_surface_image_alloc b s (Some fmt) tr = (x, s', t))"
proof (cases "va_image_format_from_imgfmt (image_formats (p_ctx (surface_p s))) (imgfmt mpi)")
  case None
  with assms show ?thesis by (simp add: va_surface_upload_def)
next
  case (Some fmt)
  obtain x s1 t1 where a: "va_surface_image_alloc b s (Some fmt) tr = (x, s1, t1)"
    by (cases "va_surface_image_alloc b s (Some fmt) tr") auto
  have "s' = s1"
  proof (cases x)
    case None
    with assms Some a show ?thesis by (simp add: va_surface_upload_def)
  next
    case im: (Some im)
    obtain m t2 where mp: "va_image_map b (p_ctx (surface_p s1)) (p_image (surface_p s1)) t1 = (m, t2)"
      by (cases "va_image_map b (p_ctx (surface_p s1)) (p_image (surface_p s1)) t1") auto
    from assms Some a im mp show ?thesis
      by (cases m) (simp_all add: va_surface_upload_def Let_def va_image_unmap_def split: if_splits)
  qed
  with a show ?thesis by blast
qed

lemma va_surface_upload_inv:
  "derive_contract b \<Longrightarrow> surface_inv s \<Longrightarrow> va_surface_upload b s mpi tr = (r, s', tr') \<Longrightarrow>
     surface_inv s'"
  using va_surface_upload_surface va_surface_image_alloc_inv by blast

text \<open>
  C9. alloc_surface makes a surface with the flag unset and the view absent. Destroying
  a view that exists unsets the flag and marks the view absent in one step. The invariant
  (the flag is set only when image_id is not VA_INVALID_ID) holds after the view
  destruction whenever it held before, and, on a driver that keeps the promise of
  vaDeriveImage, also after va_surface_image_alloc, after an upload and after a download.
\<close>

theorem is_derived_invariant:
  "(alloc_surface b c rtf sw sh tr = (Some s0, tr0) \<longrightarrow>
            \<not> is_derived (surface_p s0) \<and> image_id (p_image (surface_p s0)) = VA_INVALID_ID
            \<and> surface_inv s0)
       \<and> (image_id (p_image (surface_p s)) \<noteq> VA_INVALID_ID \<longrightarrow>
            \<not> is_derived (surface_p (fst (va_surface_image_destroy s tr)))
            \<and> image_id (p_image (surface_p (fst (va_surface_image_destroy s tr)))) = VA_INVALID_ID)
       \<and> (surface_inv s \<longrightarrow> surface_inv (fst (va_surface_image_destroy s tr)))
       \<and> (derive_contract b \<and> surface_inv s \<longrightarrow>
            surface_inv (fst (snd (va_surface_image_alloc b s fp tr)))
            \<and> surface_inv (fst (snd (va_surface_upload b s mpi tr)))
            \<and> surface_inv (fst (snd (va_surface_download b s pool tr))))"
proof (intro conjI impI)
  assume a: "alloc_surface b c rtf sw sh tr = (Some s0, tr0)"
  then show "\<not> is_derived (surface_p s0)" "image_id (p_image (surface_p s0)) = VA_INVALID_ID"
    by (auto simp: alloc_surface_def Let_def split: if_splits)
  then show "surface_inv s0" by (simp add: surface_inv_def)
next
  assume "image_id (p_image (surface_p s)) \<noteq> VA_INVALID_ID"
  then show "\<not> is_derived (surface_p (fst (va_surface_image_destroy s tr)))"
    "image_id (p_image (surface_p (fst (va_surface_image_destroy s tr)))) = VA_INVALID_ID"
    by (simp_all add: va_surface_image_destroy_def surface_upd_defs Let_def)
next
  assume inv: "surface_inv s"
  show "surface_inv (fst (va_surface_image_destroy s tr))"
    using inv by (auto simp: va_surface_image_destroy_def surface_upd_defs Let_def surface_inv_def)
next
  assume "derive_contract b \<and> surface_inv s"
  then have con: "derive_contract b" and inv: "surface_inv s" by simp_all
  show "surface_inv (fst (snd (va_surface_image_alloc b s fp tr)))"
  proof -
    obtain x1 s1 t1 where e: "va_surface_image_alloc b s fp tr = (x1, s1, t1)"
      by (cases "va_surface_image_alloc b s fp tr") auto
    from va_surface_image_alloc_inv [OF con inv e] e show ?thesis by simp
  qed
  show "surface_inv (fst (snd (va_surface_upload b s mpi tr)))"
  proof -
    obtain x1 s1 t1 where e: "va_surface_upload b s mpi tr = (x1, s1, t1)"
      by (cases "va_surface_upload b s mpi tr") auto
    from va_surface_upload_inv [OF con inv e] e show ?thesis by simp
  qed
  show "surface_inv (fst (snd (va_surface_download b s pool tr)))"
  proof -
    obtain x1 s1 t1 where e: "va_surface_download b s pool tr = (x1, s1, t1)"
      by (cases "va_surface_download b s pool tr") auto
    from va_surface_download_inv [OF con inv e] e show ?thesis by simp
  qed
qed

text \<open>
  The deriving driver keeps the promise; a surface is created, a derived view destroyed,
  and a view allocated, an image uploaded and the surface downloaded from a fresh surface.
\<close>

theorem is_derived_invariant_witness:
  "derive_contract derive_backend
   \<and> alloc_surface derive_backend example_ctx 1 64 32 []
       = (Some (example_surface 3 absent_image False), [VaCreateSurfaces 7 64 32 1])
   \<and> surface_inv (example_surface 3 absent_image False)
   \<and> image_id (p_image (surface_p (example_surface 3 example_image True))) \<noteq> VA_INVALID_ID
   \<and> \<not> is_derived (surface_p (fst (va_surface_image_destroy (example_surface 3 example_image True) [])))
   \<and> surface_inv (fst (snd (va_surface_image_alloc derive_backend
         (example_surface 3 absent_image False) (Some nv12_format) [])))
   \<and> surface_inv (fst (snd (va_surface_upload derive_backend
         (example_surface 3 absent_image False) example_mpi [])))
   \<and> surface_inv (fst (snd (va_surface_download derive_backend
         (example_surface 3 absent_image False) None [])))"
proof -
  have con: "derive_contract derive_backend"
    by (simp add: derive_contract_def example_defs)
  have al: "alloc_surface derive_backend example_ctx 1 64 32 []
       = (Some (example_surface 3 absent_image False), [VaCreateSurfaces 7 64 32 1])"
    by (simp add: alloc_surface_def check_va_status_def Let_def example_defs)
  have live: "image_id (p_image (surface_p (example_surface 3 example_image True))) \<noteq> VA_INVALID_ID"
    by (simp add: example_defs)
  note a = is_derived_invariant [
      where c = example_ctx and rtf = 1 and sw = 64 and sh = 32 and tr = "[]"
        and ?s0.0 = "example_surface 3 absent_image False" and ?tr0.0 = "[VaCreateSurfaces 7 64 32 1]"
        and s = "example_surface 3 example_image True"]
  from a al have inv: "surface_inv (example_surface 3 absent_image False)" by blast
  note b = is_derived_invariant [
      where tr = "[]" and s = "example_surface 3 absent_image False"
        and fp = "Some nv12_format" and mpi = example_mpi and pool = None]
  from con al inv live a b show ?thesis by blast
qed

subsection \<open>Destruction\<close>

text \<open>
  The id of a surface is the one vaCreateSurfaces stored at a call that reported success;
  alloc_surface is the only place a surface is made, and nothing changes the id.
\<close>

lemma alloc_surface_id:
  "alloc_surface b c rtf sw sh tr = (Some s0, tr0) \<Longrightarrow>
     tr0 = tr @ [VaCreateSurfaces (display c) sw sh rtf]
     \<and> va_status b tr0 = VA_STATUS_SUCCESS
     \<and> surface_id s0 = va_surface_id b tr0"
  by (auto simp: alloc_surface_def check_va_status_def Let_def split: if_splits)

text \<open>
  C8. Destroying a surface (one with a valid id, as vaCreateSurfaces gives it) that has
  a view calls vaDestroyImage and then vaDestroySurfaces, these two and in this order;
  no status is read, so the second call is made whatever the first one reports.
\<close>

theorem va_surface_destroy_order:
  "surface_id s \<noteq> VA_INVALID_ID \<and> image_id (p_image (surface_p s)) \<noteq> VA_INVALID_ID \<longrightarrow>
      va_surface_destroy (Some s) tr =
        tr @ [VaDestroyImage (p_display (surface_p s)) (image_id (p_image (surface_p s))),
              VaDestroySurfaces (p_display (surface_p s)) (surface_id s)]"
  by (simp add: va_surface_destroy_def Let_def)

text \<open>A surface with id 3 and view 5, destroyed after a synchronisation.\<close>

theorem va_surface_destroy_order_witness:
  "surface_id (example_surface 3 example_image False) \<noteq> VA_INVALID_ID
   \<and> image_id (p_image (surface_p (example_surface 3 example_image False))) \<noteq> VA_INVALID_ID
   \<and> va_surface_destroy (Some (example_surface 3 example_image False)) [VaSyncSurface 7 3]
       = [VaSyncSurface 7 3, VaDestroyImage 7 5, VaDestroySurfaces 7 3]"
  using va_surface_destroy_order [of "example_surface 3 example_image False" "[VaSyncSurface 7 3]"]
  by (simp add: example_surface_def example_image_def VA_INVALID_ID_def)

subsection \<open>Mapping\<close>

text \<open>
  C7. A successful va_image_map of an image with at most three planes (the size of the
  pitches and offsets arrays) returns, for the fourcc VA_FOURCC_YV12, an image whose
  planes 1 and 2 carry each other's pointer and stride of the backend layout, every
  other slot being as the backend reports it; for every other fourcc all pointers and
  strides are the ones of the backend layout.
\<close>

theorem va_image_map_plane_swap:
  assumes ok: "va_image_map b c im tr = (Some mpi, tr')"
    and np: "unat (num_planes im) \<le> 3"
  shows "(fourcc (format im) = VA_FOURCC_YV12 \<longrightarrow>
            stride mpi 1 = va_layout_stride im 2
            \<and> planes mpi 1 = va_layout_plane im (va_data b tr') 2
            \<and> stride mpi 2 = va_layout_stride im 1
            \<and> planes mpi 2 = va_layout_plane im (va_data b tr') 1
            \<and> (\<forall>p. p \<noteq> 1 \<and> p \<noteq> 2 \<longrightarrow>
                  stride mpi p = va_layout_stride im p
                  \<and> planes mpi p = va_layout_plane im (va_data b tr') p))
       \<and> (fourcc (format im) \<noteq> VA_FOURCC_YV12 \<longrightarrow>
            (\<forall>p. stride mpi p = va_layout_stride im p
                 \<and> planes mpi p = va_layout_plane im (va_data b tr') p))"
proof -
  let ?tr1 = "tr @ [VaMapBuffer (display c) (buf im)]"
  let ?mpi0 = "mp_image_set_size (mp_image_setfmt zero_mp_image (va_fourcc_to_imgfmt (fourcc (format im))))
                 (uint (width im)) (uint (height im))"
  let ?mpi1 = "map_planes 0 (unat (num_planes im)) im (va_data b ?tr1) ?mpi0"
  from va_image_map_Some [OF ok] have tr': "tr' = ?tr1" by simp
  from ok have mpi: "mpi = (if fourcc (format im) = VA_FOURCC_YV12 then swap_planes_1_2 ?mpi1 else ?mpi1)"
    by (auto simp: va_image_map_def Let_def split: if_splits)
  have z: "stride ?mpi0 p = 0" "planes ?mpi0 p = 0" for p
    by (simp_all add: mp_image_set_size_def mp_image_setfmt_def zero_mp_image_def)
  have s1: "stride ?mpi1 p = va_layout_stride im p" for p
    by (simp add: map_planes_stride va_layout_stride_def z)
  have p1: "planes ?mpi1 p = va_layout_plane im (va_data b tr') p" for p
    by (simp add: map_planes_planes va_layout_plane_def z tr')
  show ?thesis
  proof (cases "fourcc (format im) = VA_FOURCC_YV12")
    case True
    with mpi have "mpi = swap_planes_1_2 ?mpi1" by simp
    then have "stride mpi = (stride ?mpi1)(1 := stride ?mpi1 2, 2 := stride ?mpi1 1)"
      "planes mpi = (planes ?mpi1)(1 := planes ?mpi1 2, 2 := planes ?mpi1 1)"
      by (simp_all add: swap_planes_1_2_def)
    with True s1 p1 show ?thesis by simp
  next
    case False
    with mpi have "mpi = ?mpi1" by simp
    with False s1 p1 show ?thesis by simp
  qed
qed

text \<open>A YV12 view with planes at offsets 0, 2048, 2560, and the two-plane NV12 view.\<close>

theorem va_image_map_plane_swap_witness:
  "unat (num_planes yv12_image) \<le> 3
   \<and> fst (va_image_map derive_backend example_ctx yv12_image []) \<noteq> None
   \<and> planes (the (fst (va_image_map derive_backend example_ctx yv12_image []))) 1 = 4096 + 2560
   \<and> planes (the (fst (va_image_map derive_backend example_ctx yv12_image []))) 2 = 4096 + 2048
   \<and> stride (the (fst (va_image_map derive_backend example_ctx yv12_image []))) 0 = 64
   \<and> unat (num_planes example_image) \<le> 3
   \<and> fst (va_image_map derive_backend example_ctx example_image []) \<noteq> None
   \<and> planes (the (fst (va_image_map derive_backend example_ctx example_image []))) 1 = 4096 + 2048
   \<and> planes (the (fst (va_image_map derive_backend example_ctx example_image []))) 2 = 0"
proof -
  have n1: "unat (num_planes yv12_image) \<le> 3" by (simp add: yv12_image_def)
  have n2: "unat (num_planes example_image) \<le> 3" by (simp add: example_defs)
  obtain m1 t1 where e1: "va_image_map derive_backend example_ctx yv12_image [] = (Some m1, t1)"
    by (simp add: va_image_map_def Let_def check_va_status_def yv12_image_def example_defs
          va_fourcc_to_imgfmt_def va_to_imgfmt_def fourcc_defs)
  obtain m2 t2 where e2: "va_image_map derive_backend example_ctx example_image [] = (Some m2, t2)"
    by (simp add: va_image_map_def Let_def check_va_status_def example_defs
          va_fourcc_to_imgfmt_def va_to_imgfmt_def fourcc_defs)
  have y: "fourcc (format yv12_image) = VA_FOURCC_YV12" by (simp add: yv12_image_def)
  have ny: "fourcc (format example_image) \<noteq> VA_FOURCC_YV12" by (simp add: example_defs fourcc_defs)
  have d: "va_data derive_backend t = 4096" for t by (simp add: example_defs)
  from va_image_map_plane_swap [OF e1 n1] y
  have "planes m1 1 = 4096 + 2560 \<and> planes m1 2 = 4096 + 2048 \<and> stride m1 0 = 64"
    by (simp add: va_layout_plane_def va_layout_stride_def yv12_image_def d)
  moreover from va_image_map_plane_swap [OF e2 n2] ny
  have "planes m2 1 = 4096 + 2048 \<and> planes m2 2 = 0"
    by (simp add: va_layout_plane_def va_layout_stride_def d example_defs)
  ultimately show ?thesis using n1 n2 e1 e2 by simp
qed

subsection \<open>Upload and download of one format\<close>

lemma view_calls_no_put: "\<forall>e \<in> set evs. is_view_call e \<Longrightarrow> filter is_put_image evs = []"
proof (induction evs)
  case Nil
  then show ?case by simp
next
  case (Cons e evs)
  then have "is_view_call e" by simp
  then have "\<not> is_put_image e" by (cases e) simp_all
  with Cons show ?case by simp
qed

lemma view_calls_no_get: "\<forall>e \<in> set evs. is_view_call e \<Longrightarrow> filter is_get_image evs = []"
proof (induction evs)
  case Nil
  then show ?case by simp
next
  case (Cons e evs)
  then have "is_view_call e" by simp
  then have "\<not> is_get_image e" by (cases e) simp_all
  with Cons show ?case by simp
qed

lemmas view_defs =
  va_surface_image_alloc_def va_surface_image_destroy_def derive_image_def create_image_def
  check_va_status_def surface_upd_defs Let_def

lemma example_lookup:
  "va_image_format_from_imgfmt (image_formats (p_ctx (surface_p (example_surface sid im d))))
     (imgfmt example_mpi) = Some nv12_format"
  by (simp add: va_image_format_from_imgfmt_def va_fourcc_from_imgfmt_def va_to_imgfmt_def
        fourcc_defs example_defs)

lemma example_alloc_fallback:
  "va_surface_image_alloc (fallback_backend VA_FOURCC_NV12) (example_surface 3 absent_image False)
     (Some nv12_format) tr =
   (Some example_image, example_surface 3 example_image False,
    tr @ [VaDeriveImage 7 3, VaCreateImage 7 nv12_format 64 32])"
  by (simp add: view_defs example_defs)

lemma example_alloc_put_failing:
  "va_surface_image_alloc put_failing_backend (example_surface 3 absent_image False)
     (Some nv12_format) tr =
   (Some example_image, example_surface 3 example_image False,
    tr @ [VaDeriveImage 7 3, VaCreateImage 7 nv12_format 64 32])"
  by (simp add: view_defs example_defs put_failing_backend_def)

lemma example_alloc_derive:
  "va_surface_image_alloc derive_backend (example_surface 3 absent_image False)
     (Some nv12_format) tr =
   (Some example_image, example_surface 3 example_image True, tr @ [VaDeriveImage 7 3])"
  by (simp add: view_defs example_defs)

lemma example_map:
  "va_status b (tr @ [VaMapBuffer 7 9]) = 0 \<Longrightarrow>
   \<exists>img. va_image_map b (p_ctx (surface_p (example_surface 3 example_image d)))
           (p_image (surface_p (example_surface 3 example_image d))) tr
         = (Some img, tr @ [VaMapBuffer 7 9])"
  by (simp add: va_image_map_def Let_def check_va_status_def va_fourcc_to_imgfmt_def
        va_to_imgfmt_def fourcc_defs example_defs)

text \<open>
  C5. An upload that has found its descriptor, has its view and has mapped it copies the
  source into the mapped image and unmaps it. With a derived view that is the end: the
  upload succeeds and no vaPutImage is called. With a view that is not derived, one
  vaPutImage follows the unmap; the upload succeeds exactly when that call reports
  success, and whatever it reports the trace ends with it: nothing is called after a
  failed commit, the copy stays as made and the surface keeps its view. Counted over the
  whole upload, vaPutImage is called once without derived view and never with one.
\<close>

theorem upload_commit:
  assumes fmt: "va_image_format_from_imgfmt (image_formats (p_ctx (surface_p s))) (imgfmt mpi) = Some fmt"
    and alloc: "va_surface_image_alloc b s (Some fmt) tr = (Some im, s1, tr1)"
    and mapped: "va_image_map b (p_ctx (surface_p s1)) (p_image (surface_p s1)) tr1 = (Some img, tr2)"
  shows "(is_derived (surface_p s1) \<longrightarrow>
            va_surface_upload b s mpi tr =
              (True, s1,
               tr2 @ [MpImageCopy img mpi,
                      VaUnmapBuffer (display (p_ctx (surface_p s1))) (buf (p_image (surface_p s1)))]))
       \<and> (\<not> is_derived (surface_p s1) \<longrightarrow>
            va_surface_upload b s mpi tr =
              (va_status b
                 (tr2 @ [MpImageCopy img mpi,
                         VaUnmapBuffer (display (p_ctx (surface_p s1))) (buf (p_image (surface_p s1))),
                         VaPutImage2 (p_display (surface_p s1)) (surface_id s1)
                           (image_id (p_image (surface_p s1))) (mpi_w mpi) (mpi_h mpi)])
                 = VA_STATUS_SUCCESS,
               s1,
               tr2 @ [MpImageCopy img mpi,
                      VaUnmapBuffer (display (p_ctx (surface_p s1))) (buf (p_image (surface_p s1))),
                      VaPutImage2 (p_display (surface_p s1)) (surface_id s1)
                        (image_id (p_image (surface_p s1))) (mpi_w mpi) (mpi_h mpi)]))
       \<and> (\<exists>evs. snd (snd (va_surface_upload b s mpi tr)) = tr @ evs
               \<and> length (filter is_put_image evs) = (if is_derived (surface_p s1) then 0 else 1))"
proof -
  let ?copy = "MpImageCopy img mpi"
  let ?unmap = "VaUnmapBuffer (display (p_ctx (surface_p s1))) (buf (p_image (surface_p s1)))"
  let ?put = "VaPutImage2 (p_display (surface_p s1)) (surface_id s1)
                (image_id (p_image (surface_p s1))) (mpi_w mpi) (mpi_h mpi)"
  let ?map = "VaMapBuffer (display (p_ctx (surface_p s1))) (buf (p_image (surface_p s1)))"
  have d: "is_derived (surface_p s1) \<Longrightarrow>
             va_surface_upload b s mpi tr = (True, s1, tr2 @ [?copy, ?unmap])"
    using fmt alloc mapped by (simp add: va_surface_upload_def Let_def va_image_unmap_def)
  have nd: "\<not> is_derived (surface_p s1) \<Longrightarrow>
             va_surface_upload b s mpi tr =
               (va_status b (tr2 @ [?copy, ?unmap, ?put]) = VA_STATUS_SUCCESS, s1,
                tr2 @ [?copy, ?unmap, ?put])"
    using fmt alloc mapped
    by (simp add: va_surface_upload_def Let_def va_image_unmap_def check_va_status_def)
  from va_surface_image_alloc_trace [OF alloc] obtain e1 where
    e1: "tr1 = tr @ e1" "\<forall>e \<in> set e1. is_view_call e" by blast
  from va_image_map_Some [OF mapped] have tr2: "tr2 = tr1 @ [?map]" by simp
  have cnt: "\<exists>evs. snd (snd (va_surface_upload b s mpi tr)) = tr @ evs
               \<and> length (filter is_put_image evs) = (if is_derived (surface_p s1) then 0 else 1)"
  proof (cases "is_derived (surface_p s1)")
    case True
    with d e1 tr2 view_calls_no_put [OF e1(2)] show ?thesis
      by (intro exI [of _ "e1 @ [?map, ?copy, ?unmap]"]) simp
  next
    case False
    with nd e1 tr2 view_calls_no_put [OF e1(2)] show ?thesis
      by (intro exI [of _ "e1 @ [?map, ?copy, ?unmap, ?put]"]) simp
  qed
  from d nd cnt show ?thesis by blast
qed

text \<open>
  A fresh surface on a driver that cannot derive (one commit, success), on one whose
  commit fails (upload fails, the commit is the last call), and on one that derives
  (no commit).
\<close>

theorem upload_commit_witness:
  "fst (va_surface_upload (fallback_backend VA_FOURCC_NV12)
          (example_surface 3 absent_image False) example_mpi [])
   \<and> filter is_put_image (snd (snd (va_surface_upload (fallback_backend VA_FOURCC_NV12)
          (example_surface 3 absent_image False) example_mpi []))) = [VaPutImage2 7 3 5 64 32]
   \<and> \<not> fst (va_surface_upload put_failing_backend
          (example_surface 3 absent_image False) example_mpi [])
   \<and> last (snd (snd (va_surface_upload put_failing_backend
          (example_surface 3 absent_image False) example_mpi []))) = VaPutImage2 7 3 5 64 32
   \<and> fst (va_surface_upload derive_backend
          (example_surface 3 absent_image False) example_mpi [])
   \<and> filter is_put_image (snd (snd (va_surface_upload derive_backend
          (example_surface 3 absent_image False) example_mpi []))) = []"
proof -
  let ?s0 = "example_surface 3 absent_image False"
  let ?sf = "example_surface 3 example_image False"
  let ?sd = "example_surface 3 example_image True"
  have nd: "\<not> is_derived (surface_p ?sf)" and dv: "is_derived (surface_p ?sd)"
    by (simp_all add: example_defs)
  have sel: "p_display (surface_p (example_surface 3 example_image d)) = 7"
    "surface_id (example_surface 3 example_image d) = 3"
    "image_id (p_image (surface_p (example_surface 3 example_image d))) = 5"
    "buf (p_image (surface_p (example_surface 3 example_image d))) = 9"
    "display (p_ctx (surface_p (example_surface 3 example_image d))) = 7"
    "mpi_w example_mpi = 64" "mpi_h example_mpi = 32" for d
    by (simp_all add: example_defs)
  have "va_status (fallback_backend VA_FOURCC_NV12)
          ([VaDeriveImage 7 3, VaCreateImage 7 nv12_format 64 32] @ [VaMapBuffer 7 9]) = 0"
    by (simp add: example_defs)
  from example_map [OF this] obtain i1 where
    m1: "va_image_map (fallback_backend VA_FOURCC_NV12) (p_ctx (surface_p ?sf)) (p_image (surface_p ?sf))
           ([] @ [VaDeriveImage 7 3, VaCreateImage 7 nv12_format 64 32])
         = (Some i1, [VaDeriveImage 7 3, VaCreateImage 7 nv12_format 64 32] @ [VaMapBuffer 7 9])"
    by auto
  have "va_status put_failing_backend
          ([VaDeriveImage 7 3, VaCreateImage 7 nv12_format 64 32] @ [VaMapBuffer 7 9]) = 0"
    by (simp add: put_failing_backend_def)
  from example_map [OF this] obtain i2 where
    m2: "va_image_map put_failing_backend (p_ctx (surface_p ?sf)) (p_image (surface_p ?sf))
           ([] @ [VaDeriveImage 7 3, VaCreateImage 7 nv12_format 64 32])
         = (Some i2, [VaDeriveImage 7 3, VaCreateImage 7 nv12_format 64 32] @ [VaMapBuffer 7 9])"
    by auto
  have "va_status derive_backend ([VaDeriveImage 7 3] @ [VaMapBuffer 7 9]) = 0"
    by (simp add: example_defs)
  from example_map [OF this] obtain i3 where
    m3: "va_image_map derive_backend (p_ctx (surface_p ?sd)) (p_image (surface_p ?sd))
           ([] @ [VaDeriveImage 7 3])
         = (Some i3, [VaDeriveImage 7 3] @ [VaMapBuffer 7 9])"
    by auto
  from upload_commit [OF example_lookup example_alloc_fallback m1] nd
  have u1: "va_surface_upload (fallback_backend VA_FOURCC_NV12) ?s0 example_mpi [] =
      (True, ?sf, [VaDeriveImage 7 3, VaCreateImage 7 nv12_format 64 32, VaMapBuffer 7 9,
                   MpImageCopy i1 example_mpi, VaUnmapBuffer 7 9, VaPutImage2 7 3 5 64 32])"
    by (simp add: sel) (simp add: example_defs)
  from upload_commit [OF example_lookup example_alloc_put_failing m2] nd
  have u2: "va_surface_upload put_failing_backend ?s0 example_mpi [] =
      (False, ?sf, [VaDeriveImage 7 3, VaCreateImage 7 nv12_format 64 32, VaMapBuffer 7 9,
                   MpImageCopy i2 example_mpi, VaUnmapBuffer 7 9, VaPutImage2 7 3 5 64 32])"
    by (simp add: sel) (simp add: put_failing_backend_def VA_STATUS_SUCCESS_def)
  from upload_commit [OF example_lookup example_alloc_derive m3] dv
  have u3: "va_surface_upload derive_backend ?s0 example_mpi [] =
      (True, ?sd, [VaDeriveImage 7 3, VaMapBuffer 7 9, MpImageCopy i3 example_mpi, VaUnmapBuffer 7 9])"
    by (simp add: sel)
  show ?thesis by (simp add: u1 u2 u3)
qed

lemma va_image_map_size:
  "va_image_map b c im tr = (Some mpi, tr') \<Longrightarrow>
     mpi_w mpi = uint (width im) \<and> mpi_h mpi = uint (height im)"
  by (auto simp: va_image_map_def Let_def check_va_status_def mp_image_setfmt_def
        mp_image_set_size_def swap_planes_1_2_def map_planes_fields split: if_splits)

lemma example_alloc_get_failing:
  "va_surface_image_alloc (failing_backend (\<lambda>c. is_derive_image c \<or> is_get_image c))
     (example_surface 3 absent_image False) (Some nv12_format) tr =
   (Some example_image, example_surface 3 example_image False,
    tr @ [VaDeriveImage 7 3, VaCreateImage 7 nv12_format 64 32])"
  by (simp add: view_defs example_defs failing_backend_def)

lemma example_alloc_map_failing:
  "va_surface_image_alloc (failing_backend is_map_buffer)
     (example_surface 3 absent_image False) (Some nv12_format) tr =
   (Some example_image, example_surface 3 example_image True, tr @ [VaDeriveImage 7 3])"
  by (simp add: view_defs example_defs failing_backend_def)

lemma example_map_fails:
  "va_image_map (failing_backend is_map_buffer)
     (p_ctx (surface_p (example_surface 3 example_image d)))
     (p_image (surface_p (example_surface 3 example_image d))) tr
   = (None, tr @ [VaMapBuffer 7 9])"
  by (simp add: va_image_map_def Let_def check_va_status_def va_fourcc_to_imgfmt_def
        va_to_imgfmt_def fourcc_defs example_defs failing_backend_def)

text \<open>
  C10. A download attempt of a known format that has its view is decided by the flag.
  With a derived view no vaGetImage is called in the whole attempt: the view is mapped
  right after it was obtained, and when the mapping succeeds and has the expected format
  the attempt returns a new image of the mapped size after copying the mapped image into
  it and unmapping; a failed mapping gives NULL, a mapped image of another format stops
  at the assertion. With a view that is not derived, vaGetImage is the call right after
  the view was obtained and the only one of the attempt; its failure ends the attempt
  with NULL and nothing else called, its success is followed by the same mapping, copy
  and unmapping.
\<close>

theorem try_download_readback:
  assumes known: "va_fourcc_to_imgfmt (fourcc fmt) \<noteq> IMGFMT_NONE"
    and alloc: "va_surface_image_alloc b s (Some fmt) tr = (Some im, s1, tr1)"
    and res: "try_download b s fmt pool tr = (r, s', tr')"
  shows "s' = s1
       \<and> (\<exists>evs. tr' = tr @ evs
               \<and> length (filter is_get_image evs) = (if is_derived (surface_p s1) then 0 else 1))
       \<and> (is_derived (surface_p s1) \<longrightarrow>
            (\<forall>tmp t3. va_image_map b (p_ctx (surface_p s1)) (p_image (surface_p s1)) tr1 = (Some tmp, t3)
                 \<longrightarrow> t3 = tr1 @ [VaMapBuffer (display (p_ctx (surface_p s1)))
                                     (buf (p_image (surface_p s1)))]
                   \<and> (imgfmt tmp = va_fourcc_to_imgfmt (fourcc fmt) \<longrightarrow>
                        r = Ref (new_mp_image (va_fourcc_to_imgfmt (fourcc fmt)) (mpi_w tmp) (mpi_h tmp))
                        \<and> tr' = t3 @
                            [(case pool of
                                Some pl \<Rightarrow> MpImagePoolGet pl (va_fourcc_to_imgfmt (fourcc fmt))
                                             (mpi_w tmp) (mpi_h tmp)
                              | None \<Rightarrow> MpImageAlloc (va_fourcc_to_imgfmt (fourcc fmt))
                                          (mpi_w tmp) (mpi_h tmp)),
                             MpImageCopy (new_mp_image (va_fourcc_to_imgfmt (fourcc fmt))
                                            (mpi_w tmp) (mpi_h tmp)) tmp,
                             VaUnmapBuffer (display (p_ctx (surface_p s1)))
                               (buf (p_image (surface_p s1)))])
                   \<and> (imgfmt tmp \<noteq> va_fourcc_to_imgfmt (fourcc fmt) \<longrightarrow>
                        r = Assert_failed \<and> tr' = t3))
            \<and> (\<forall>t3. va_image_map b (p_ctx (surface_p s1)) (p_image (surface_p s1)) tr1 = (None, t3)
                 \<longrightarrow> r = Null \<and> tr' = t3))
       \<and> (\<not> is_derived (surface_p s1) \<longrightarrow>
            (va_status b (tr1 @ [VaGetImage (p_display (surface_p s1)) (surface_id s1)
                                   (surface_w s1) (surface_h s1) (image_id (p_image (surface_p s1)))])
               \<noteq> VA_STATUS_SUCCESS \<longrightarrow>
               r = Null
               \<and> tr' = tr1 @ [VaGetImage (p_display (surface_p s1)) (surface_id s1)
                                (surface_w s1) (surface_h s1) (image_id (p_image (surface_p s1)))])
            \<and> (va_status b (tr1 @ [VaGetImage (p_display (surface_p s1)) (surface_id s1)
                                   (surface_w s1) (surface_h s1) (image_id (p_image (surface_p s1)))])
               = VA_STATUS_SUCCESS \<longrightarrow>
               (\<forall>tmp t3. va_image_map b (p_ctx (surface_p s1)) (p_image (surface_p s1))
                            (tr1 @ [VaGetImage (p_display (surface_p s1)) (surface_id s1)
                                     (surface_w s1) (surface_h s1)
                                     (image_id (p_image (surface_p s1)))]) = (Some tmp, t3)
                 \<longrightarrow> t3 = tr1 @ [VaGetImage (p_display (surface_p s1)) (surface_id s1)
                                     (surface_w s1) (surface_h s1)
                                     (image_id (p_image (surface_p s1))),
                                   VaMapBuffer (display (p_ctx (surface_p s1)))
                                     (buf (p_image (surface_p s1)))]
                   \<and> (imgfmt tmp = va_fourcc_to_imgfmt (fourcc fmt) \<longrightarrow>
                        r = Ref (new_mp_image (va_fourcc_to_imgfmt (fourcc fmt)) (mpi_w tmp) (mpi_h tmp))
                        \<and> tr' = t3 @
                            [(case pool of
                                Some pl \<Rightarrow> MpImagePoolGet pl (va_fourcc_to_imgfmt (fourcc fmt))
                                             (mpi_w tmp) (mpi_h tmp)
                              | None \<Rightarrow> MpImageAlloc (va_fourcc_to_imgfmt (fourcc fmt))
                                          (mpi_w tmp) (mpi_h tmp)),
                             MpImageCopy (new_mp_image (va_fourcc_to_imgfmt (fourcc fmt))
                                            (mpi_w tmp) (mpi_h tmp)) tmp,
                             VaUnmapBuffer (display (p_ctx (surface_p s1)))
                               (buf (p_image (surface_p s1)))])
                   \<and> (imgfmt tmp \<noteq> va_fourcc_to_imgfmt (fourcc fmt) \<longrightarrow>
                        r = Assert_failed \<and> tr' = t3))
               \<and> (\<forall>t3. va_image_map b (p_ctx (surface_p s1)) (p_image (surface_p s1))
                            (tr1 @ [VaGetImage (p_display (surface_p s1)) (surface_id s1)
                                     (surface_w s1) (surface_h s1)
                                     (image_id (p_image (surface_p s1)))]) = (None, t3)
                 \<longrightarrow> r = Null \<and> tr' = t3)))"
proof -
  let ?get = "VaGetImage (p_display (surface_p s1)) (surface_id s1)
                (surface_w s1) (surface_h s1) (image_id (p_image (surface_p s1)))"
  let ?map = "VaMapBuffer (display (p_ctx (surface_p s1))) (buf (p_image (surface_p s1)))"
  let ?unmap = "VaUnmapBuffer (display (p_ctx (surface_p s1))) (buf (p_image (surface_p s1)))"
  let ?ifmt = "va_fourcc_to_imgfmt (fourcc fmt)"
  let ?tr2 = "if \<not> is_derived (surface_p s1) then tr1 @ [?get] else tr1"
  let ?al = "\<lambda>tmp. case pool of Some pl \<Rightarrow> MpImagePoolGet pl ?ifmt (mpi_w tmp) (mpi_h tmp)
                             | None \<Rightarrow> MpImageAlloc ?ifmt (mpi_w tmp) (mpi_h tmp)"
  let ?dst = "\<lambda>tmp. new_mp_image ?ifmt (mpi_w tmp) (mpi_h tmp)"
  let ?getok = "is_derived (surface_p s1) \<or> va_status b (tr1 @ [?get]) = VA_STATUS_SUCCESS"
  have s': "s' = s1"
  proof (cases "?getok")
    case False
    with known alloc res show ?thesis by (auto simp: try_download_def Let_def)
  next
    case ok: True
    obtain m u where mp: "va_image_map b (p_ctx (surface_p s1)) (p_image (surface_p s1)) ?tr2 = (m, u)"
      by (cases "va_image_map b (p_ctx (surface_p s1)) (p_image (surface_p s1)) ?tr2") auto
    from ok mp known alloc res show ?thesis
      by (cases m) (auto simp: try_download_def Let_def va_image_unmap_def split: if_splits)
  qed
  from va_surface_image_alloc_trace [OF alloc] obtain e1 where
    e1: "tr1 = tr @ e1" "\<forall>e \<in> set e1. is_view_call e" by blast
  note ng = view_calls_no_get [OF e1(2)]
  have getfail: "\<not> ?getok \<Longrightarrow> r = Null \<and> tr' = tr1 @ [?get]"
    using known alloc res by (auto simp: try_download_def Let_def)
  have some: "r = Ref (?dst tmp) \<and> tr' = t3 @ [?al tmp, MpImageCopy (?dst tmp) tmp, ?unmap]"
    if "?getok" "va_image_map b (p_ctx (surface_p s1)) (p_image (surface_p s1)) ?tr2 = (Some tmp, t3)"
      "imgfmt tmp = ?ifmt" for tmp t3
    using that known alloc res
    by (auto simp: try_download_def Let_def va_image_unmap_def split: if_splits)
  have bad: "r = Assert_failed \<and> tr' = t3"
    if "?getok" "va_image_map b (p_ctx (surface_p s1)) (p_image (surface_p s1)) ?tr2 = (Some tmp, t3)"
      "imgfmt tmp \<noteq> ?ifmt" for tmp t3
    using that known alloc res
    by (auto simp: try_download_def Let_def split: if_splits)
  have none: "r = Null \<and> tr' = t3"
    if "?getok" "va_image_map b (p_ctx (surface_p s1)) (p_image (surface_p s1)) ?tr2 = (None, t3)" for t3
    using that known alloc res
    by (auto simp: try_download_def Let_def split: if_splits)
  have t3: "t3 = ?tr2 @ [?map]"
    if "va_image_map b (p_ctx (surface_p s1)) (p_image (surface_p s1)) ?tr2 = (Some tmp, t3)" for tmp t3
    using va_image_map_Some [OF that] by simp
  have tail: "\<exists>rest. tr' = ?tr2 @ rest \<and> filter is_get_image rest = []"
  proof (cases "?getok")
    case False
    with getfail have "tr' = ?tr2 @ []" by auto
    then show ?thesis by (intro exI [of _ "[]"]) simp
  next
    case ok: True
    obtain m u where mp: "va_image_map b (p_ctx (surface_p s1)) (p_image (surface_p s1)) ?tr2 = (m, u)"
      by (cases "va_image_map b (p_ctx (surface_p s1)) (p_image (surface_p s1)) ?tr2") auto
    show ?thesis
    proof (cases m)
      case None
      from none [OF ok mp [unfolded None]] va_image_map_None [OF mp [unfolded None]]
      have "tr' = ?tr2 @ [] \<or> tr' = ?tr2 @ [?map]" by simp
      then show ?thesis
      proof
        assume "tr' = ?tr2 @ []"
        then show ?thesis by (intro exI [of _ "[]"]) simp
      next
        assume "tr' = ?tr2 @ [?map]"
        then show ?thesis by (intro exI [of _ "[?map]"]) simp
      qed
    next
      case (Some tmp)
      note u = t3 [OF mp [unfolded Some]]
      show ?thesis
      proof (cases "imgfmt tmp = ?ifmt")
        case True
        from some [OF ok mp [unfolded Some] True] u
        have "tr' = ?tr2 @ [?map, ?al tmp, MpImageCopy (?dst tmp) tmp, ?unmap]" by simp
        then show ?thesis
          by (intro exI [of _ "[?map, ?al tmp, MpImageCopy (?dst tmp) tmp, ?unmap]"])
             (auto split: option.splits)
      next
        case False
        from bad [OF ok mp [unfolded Some] False] u have "tr' = ?tr2 @ [?map]" by simp
        then show ?thesis by (intro exI [of _ "[?map]"]) simp
      qed
    qed
  qed
  then obtain rest where rest: "tr' = ?tr2 @ rest" "filter is_get_image rest = []" by blast
  have c1: "\<exists>evs. tr' = tr @ evs
               \<and> length (filter is_get_image evs) = (if is_derived (surface_p s1) then 0 else 1)"
  proof (cases "is_derived (surface_p s1)")
    case True
    with rest e1(1) ng show ?thesis by (intro exI [of _ "e1 @ rest"]) simp
  next
    case False
    with rest e1(1) ng show ?thesis by (intro exI [of _ "e1 @ ?get # rest"]) simp
  qed
  have cd: "is_derived (surface_p s1) \<longrightarrow>
            (\<forall>tmp t3. va_image_map b (p_ctx (surface_p s1)) (p_image (surface_p s1)) tr1 = (Some tmp, t3)
                 \<longrightarrow> t3 = tr1 @ [?map]
                   \<and> (imgfmt tmp = ?ifmt \<longrightarrow>
                        r = Ref (?dst tmp) \<and> tr' = t3 @ [?al tmp, MpImageCopy (?dst tmp) tmp, ?unmap])
                   \<and> (imgfmt tmp \<noteq> ?ifmt \<longrightarrow> r = Assert_failed \<and> tr' = t3))
            \<and> (\<forall>t3. va_image_map b (p_ctx (surface_p s1)) (p_image (surface_p s1)) tr1 = (None, t3)
                 \<longrightarrow> r = Null \<and> tr' = t3)"
  proof (intro impI conjI allI)
    fix tmp t3
    assume dv: "is_derived (surface_p s1)"
      and m: "va_image_map b (p_ctx (surface_p s1)) (p_image (surface_p s1)) tr1 = (Some tmp, t3)"
    from dv m have m2: "va_image_map b (p_ctx (surface_p s1)) (p_image (surface_p s1)) ?tr2 = (Some tmp, t3)"
      by simp
    from t3 [OF m2] dv show "t3 = tr1 @ [?map]" by simp
    {
      assume "imgfmt tmp = ?ifmt"
      from some [OF _ m2 this] dv
      show "r = Ref (?dst tmp)" "tr' = t3 @ [?al tmp, MpImageCopy (?dst tmp) tmp, ?unmap]"
        by simp_all
    }
    {
      assume "imgfmt tmp \<noteq> ?ifmt"
      from bad [OF _ m2 this] dv show "r = Assert_failed" "tr' = t3" by simp_all
    }
  next
    fix t3
    assume dv: "is_derived (surface_p s1)"
      and m: "va_image_map b (p_ctx (surface_p s1)) (p_image (surface_p s1)) tr1 = (None, t3)"
    from dv m have m2: "va_image_map b (p_ctx (surface_p s1)) (p_image (surface_p s1)) ?tr2 = (None, t3)"
      by simp
    from none [OF _ m2] dv show "r = Null" "tr' = t3" by simp_all
  qed
  have cn: "\<not> is_derived (surface_p s1) \<longrightarrow>
            (va_status b (tr1 @ [?get]) \<noteq> VA_STATUS_SUCCESS \<longrightarrow> r = Null \<and> tr' = tr1 @ [?get])
            \<and> (va_status b (tr1 @ [?get]) = VA_STATUS_SUCCESS \<longrightarrow>
               (\<forall>tmp t3. va_image_map b (p_ctx (surface_p s1)) (p_image (surface_p s1))
                            (tr1 @ [?get]) = (Some tmp, t3)
                 \<longrightarrow> t3 = tr1 @ [?get, ?map]
                   \<and> (imgfmt tmp = ?ifmt \<longrightarrow>
                        r = Ref (?dst tmp) \<and> tr' = t3 @ [?al tmp, MpImageCopy (?dst tmp) tmp, ?unmap])
                   \<and> (imgfmt tmp \<noteq> ?ifmt \<longrightarrow> r = Assert_failed \<and> tr' = t3))
               \<and> (\<forall>t3. va_image_map b (p_ctx (surface_p s1)) (p_image (surface_p s1))
                            (tr1 @ [?get]) = (None, t3)
                 \<longrightarrow> r = Null \<and> tr' = t3))"
  proof (intro impI conjI allI)
    assume "\<not> is_derived (surface_p s1)" "va_status b (tr1 @ [?get]) \<noteq> VA_STATUS_SUCCESS"
    with getfail show "r = Null" "tr' = tr1 @ [?get]" by simp_all
  next
    fix tmp t3
    assume nd: "\<not> is_derived (surface_p s1)" and g: "va_status b (tr1 @ [?get]) = VA_STATUS_SUCCESS"
      and m: "va_image_map b (p_ctx (surface_p s1)) (p_image (surface_p s1)) (tr1 @ [?get]) = (Some tmp, t3)"
    from nd m have m2: "va_image_map b (p_ctx (surface_p s1)) (p_image (surface_p s1)) ?tr2 = (Some tmp, t3)"
      by simp
    from t3 [OF m2] nd show "t3 = tr1 @ [?get, ?map]" by simp
    {
      assume "imgfmt tmp = ?ifmt"
      from some [OF _ m2 this] g
      show "r = Ref (?dst tmp)" "tr' = t3 @ [?al tmp, MpImageCopy (?dst tmp) tmp, ?unmap]"
        by simp_all
    }
    {
      assume "imgfmt tmp \<noteq> ?ifmt"
      from bad [OF _ m2 this] g show "r = Assert_failed" "tr' = t3" by simp_all
    }
  next
    fix t3
    assume nd: "\<not> is_derived (surface_p s1)" and g: "va_status b (tr1 @ [?get]) = VA_STATUS_SUCCESS"
      and m: "va_image_map b (p_ctx (surface_p s1)) (p_image (surface_p s1)) (tr1 @ [?get]) = (None, t3)"
    from nd m have m2: "va_image_map b (p_ctx (surface_p s1)) (p_image (surface_p s1)) ?tr2 = (None, t3)"
      by simp
    from none [OF _ m2] g show "r = Null" "tr' = t3" by simp_all
  qed
  from s' c1 cd cn show ?thesis by blast
qed

text \<open>
  A fresh surface on the driver that derives (the image returned is copied from the
  mapping of the derived view, no read-back), on the driver that cannot derive (read-back,
  then mapping and copy), on a driver whose read-back fails, and on a driver that derives
  but cannot map.
\<close>

theorem try_download_readback_witness:
  "va_fourcc_to_imgfmt (fourcc nv12_format) \<noteq> IMGFMT_NONE
   \<and> try_download derive_backend (example_surface 3 absent_image False) nv12_format None []
       = (Ref (new_mp_image IMGFMT_NV12 64 32), example_surface 3 example_image True,
          [VaDeriveImage 7 3, VaMapBuffer 7 9, MpImageAlloc IMGFMT_NV12 64 32,
           MpImageCopy (new_mp_image IMGFMT_NV12 64 32)
             (the (fst (va_image_map derive_backend example_ctx example_image [VaDeriveImage 7 3]))),
           VaUnmapBuffer 7 9])
   \<and> try_download (fallback_backend VA_FOURCC_NV12) (example_surface 3 absent_image False)
        nv12_format None []
       = (Ref (new_mp_image IMGFMT_NV12 64 32), example_surface 3 example_image False,
          [VaDeriveImage 7 3, VaCreateImage 7 nv12_format 64 32, VaGetImage 7 3 64 32 5,
           VaMapBuffer 7 9, MpImageAlloc IMGFMT_NV12 64 32,
           MpImageCopy (new_mp_image IMGFMT_NV12 64 32)
             (the (fst (va_image_map (fallback_backend VA_FOURCC_NV12) example_ctx example_image
                          [VaDeriveImage 7 3, VaCreateImage 7 nv12_format 64 32,
                           VaGetImage 7 3 64 32 5]))),
           VaUnmapBuffer 7 9])
   \<and> try_download (failing_backend (\<lambda>c. is_derive_image c \<or> is_get_image c))
        (example_surface 3 absent_image False) nv12_format None []
       = (Null, example_surface 3 example_image False,
          [VaDeriveImage 7 3, VaCreateImage 7 nv12_format 64 32, VaGetImage 7 3 64 32 5])
   \<and> try_download (failing_backend is_map_buffer)
        (example_surface 3 absent_image False) nv12_format None []
       = (Null, example_surface 3 example_image True, [VaDeriveImage 7 3, VaMapBuffer 7 9])"
proof -
  let ?s0 = "example_surface 3 absent_image False"
  let ?sf = "example_surface 3 example_image False"
  let ?sd = "example_surface 3 example_image True"
  have known: "va_fourcc_to_imgfmt (fourcc nv12_format) \<noteq> IMGFMT_NONE"
    and nv: "va_fourcc_to_imgfmt (fourcc nv12_format) = IMGFMT_NV12"
    "va_fourcc_to_imgfmt (fourcc (format example_image)) = IMGFMT_NV12"
    by (simp_all add: va_fourcc_to_imgfmt_def va_to_imgfmt_def fourcc_defs example_defs)
  have nd: "\<not> is_derived (surface_p ?sf)" and dv: "is_derived (surface_p ?sd)"
    by (simp_all add: example_defs)
  have sel: "p_display (surface_p (example_surface 3 example_image d)) = 7"
    "surface_id (example_surface 3 example_image d) = 3"
    "surface_w (example_surface 3 example_image d) = 64"
    "surface_h (example_surface 3 example_image d) = 32"
    "image_id (p_image (surface_p (example_surface 3 example_image d))) = 5"
    "buf (p_image (surface_p (example_surface 3 example_image d))) = 9"
    "display (p_ctx (surface_p (example_surface 3 example_image d))) = 7"
    "p_ctx (surface_p (example_surface 3 example_image d)) = example_ctx"
    "p_image (surface_p (example_surface 3 example_image d)) = example_image" for d
    by (simp_all add: example_defs)
  have wh: "uint (width example_image) = 64" "uint (height example_image) = 32"
    "image_id example_image = 5" "buf example_image = 9" "display example_ctx = 7"
    by (simp_all add: example_defs)
  obtain r1 s1 t1 where d1: "try_download derive_backend ?s0 nv12_format None [] = (r1, s1, t1)"
    by (metis prod_cases3)
  obtain r2 s2 t2 where d2: "try_download (fallback_backend VA_FOURCC_NV12) ?s0 nv12_format None []
      = (r2, s2, t2)" by (metis prod_cases3)
  obtain r3 s3 t3 where d3: "try_download (failing_backend (\<lambda>c. is_derive_image c \<or> is_get_image c))
      ?s0 nv12_format None [] = (r3, s3, t3)" by (metis prod_cases3)
  obtain r4 s4 t4 where d4: "try_download (failing_backend is_map_buffer) ?s0 nv12_format None []
      = (r4, s4, t4)" by (metis prod_cases3)
  note w1 = try_download_readback [OF known example_alloc_derive d1]
  note w2 = try_download_readback [OF known example_alloc_fallback d2]
  note w3 = try_download_readback [OF known example_alloc_get_failing d3]
  note w4 = try_download_readback [OF known example_alloc_map_failing d4]
  \<comment> \<open>derived view, mapped and copied\<close>
  have "va_status derive_backend ([VaDeriveImage 7 3] @ [VaMapBuffer 7 9]) = 0"
    by (simp add: example_defs)
  from example_map [OF this, of True] obtain m1 where
    m1: "va_image_map derive_backend example_ctx example_image [VaDeriveImage 7 3]
         = (Some m1, [VaDeriveImage 7 3, VaMapBuffer 7 9])"
    by (auto simp: sel)
  from va_image_map_Some [OF m1] va_image_map_size [OF m1]
  have f1: "imgfmt m1 = IMGFMT_NV12" "mpi_w m1 = 64" "mpi_h m1 = 32"
    by (simp_all add: nv wh)
  from w1 dv m1 f1 have e1: "r1 = Ref (new_mp_image IMGFMT_NV12 64 32) \<and> s1 = ?sd
      \<and> t1 = [VaDeriveImage 7 3, VaMapBuffer 7 9, MpImageAlloc IMGFMT_NV12 64 32,
              MpImageCopy (new_mp_image IMGFMT_NV12 64 32) m1, VaUnmapBuffer 7 9]"
    by (simp add: sel nv wh)
  \<comment> \<open>independent view, read back first\<close>
  have g2: "va_status (fallback_backend VA_FOURCC_NV12)
              ([VaDeriveImage 7 3, VaCreateImage 7 nv12_format 64 32] @ [VaGetImage 7 3 64 32 5])
            = VA_STATUS_SUCCESS"
    by (simp add: example_defs)
  have "va_status (fallback_backend VA_FOURCC_NV12)
          ([VaDeriveImage 7 3, VaCreateImage 7 nv12_format 64 32, VaGetImage 7 3 64 32 5]
           @ [VaMapBuffer 7 9]) = 0"
    by (simp add: example_defs)
  from example_map [OF this, of False] obtain m2 where
    m2: "va_image_map (fallback_backend VA_FOURCC_NV12) example_ctx example_image
           [VaDeriveImage 7 3, VaCreateImage 7 nv12_format 64 32, VaGetImage 7 3 64 32 5]
         = (Some m2, [VaDeriveImage 7 3, VaCreateImage 7 nv12_format 64 32, VaGetImage 7 3 64 32 5,
                      VaMapBuffer 7 9])"
    by (auto simp: sel)
  from va_image_map_Some [OF m2] va_image_map_size [OF m2]
  have f2: "imgfmt m2 = IMGFMT_NV12" "mpi_w m2 = 64" "mpi_h m2 = 32"
    by (simp_all add: nv wh)
  from w2 nd g2 m2 f2 have e2: "r2 = Ref (new_mp_image IMGFMT_NV12 64 32) \<and> s2 = ?sf
      \<and> t2 = [VaDeriveImage 7 3, VaCreateImage 7 nv12_format 64 32, VaGetImage 7 3 64 32 5,
              VaMapBuffer 7 9, MpImageAlloc IMGFMT_NV12 64 32,
              MpImageCopy (new_mp_image IMGFMT_NV12 64 32) m2, VaUnmapBuffer 7 9]"
    by (simp add: sel nv wh)
  \<comment> \<open>failed read-back\<close>
  have g3: "va_status (failing_backend (\<lambda>c. is_derive_image c \<or> is_get_image c))
              ([VaDeriveImage 7 3, VaCreateImage 7 nv12_format 64 32] @ [VaGetImage 7 3 64 32 5])
            \<noteq> VA_STATUS_SUCCESS"
    by (simp add: failing_backend_def VA_STATUS_SUCCESS_def)
  from w3 nd g3 have e3: "r3 = Null \<and> s3 = ?sf
      \<and> t3 = [VaDeriveImage 7 3, VaCreateImage 7 nv12_format 64 32, VaGetImage 7 3 64 32 5]"
    by (simp add: sel wh)
  \<comment> \<open>derived view whose mapping fails\<close>
  from w4 dv example_map_fails [of True "[] @ [VaDeriveImage 7 3]"]
  have e4: "r4 = Null \<and> s4 = ?sd \<and> t4 = [VaDeriveImage 7 3, VaMapBuffer 7 9]"
    by (simp add: sel wh)
  from known e1 e2 e3 e4 m1 m2 show ?thesis by (simp add: d1 d2 d3 d4)
qed

subsection \<open>The search of va_surface_download\<close>

lemma download_scan_first:
  "download_scan b fmts pool s tr = (r, s', tr') \<Longrightarrow>
     (r \<noteq> Null \<longrightarrow>
        (\<exists>tried fmt rest s1 tr1. fmts = tried @ fmt # rest
           \<and> failed_attempts b tried pool s tr = Some (s1, tr1)
           \<and> try_download b s1 fmt pool tr1 = (r, s', tr')))
     \<and> (r = Null \<longrightarrow> failed_attempts b fmts pool s tr = Some (s', tr'))"
proof (induction fmts arbitrary: s tr)
  case Nil
  then show ?case by simp
next
  case (Cons fmt fmts)
  obtain r1 s1 tr1 where t: "try_download b s fmt pool tr = (r1, s1, tr1)"
    by (cases "try_download b s fmt pool tr") auto
  show ?case
  proof (cases "r1 = Null")
    case True
    with Cons.prems t have sc: "download_scan b fmts pool s1 tr1 = (r, s', tr')" by simp
    note ih = Cons.IH [OF sc]
    have fa: "failed_attempts b (fmt # xs) pool s tr = failed_attempts b xs pool s1 tr1" for xs
      using t True by simp
    show ?thesis
    proof (intro conjI impI)
      assume "r \<noteq> Null"
      with ih obtain tried f rest s2 tr2 where
        "fmts = tried @ f # rest" "failed_attempts b tried pool s1 tr1 = Some (s2, tr2)"
        "try_download b s2 f pool tr2 = (r, s', tr')" by blast
      then have "fmt # fmts = (fmt # tried) @ f # rest
           \<and> failed_attempts b (fmt # tried) pool s tr = Some (s2, tr2)
           \<and> try_download b s2 f pool tr2 = (r, s', tr')"
        using fa by simp
      then show "\<exists>tried f rest s1 tr1. fmt # fmts = tried @ f # rest
           \<and> failed_attempts b tried pool s tr = Some (s1, tr1)
           \<and> try_download b s1 f pool tr1 = (r, s', tr')" by blast
    next
      assume "r = Null"
      with ih fa show "failed_attempts b (fmt # fmts) pool s tr = Some (s', tr')" by simp
    qed
  next
    case False
    with Cons.prems t have eq: "r = r1" "s' = s1" "tr' = tr1"
      by (cases r1; simp)+
    from False eq t have "fmt # fmts = [] @ fmt # fmts
           \<and> failed_attempts b [] pool s tr = Some (s, tr)
           \<and> try_download b s fmt pool tr = (r, s', tr')" by simp
    then have "\<exists>tried f rest s1 tr1. fmt # fmts = tried @ f # rest
           \<and> failed_attempts b tried pool s tr = Some (s1, tr1)
           \<and> try_download b s1 f pool tr1 = (r, s', tr')" by blast
    with False eq show ?thesis by simp
  qed
qed

text \<open>
  C6. After a successful vaSyncSurface, on a surface whose context has a registry, the
  download goes through the format of the cached view (when there is one) and then the
  registry entries in their order. A result other than NULL is the result of the attempt
  on one of these formats, made after every format before it was tried in order and
  returned NULL, and the surface and trace returned are the ones that attempt left: no
  later format is tried. NULL is returned only when every format of the list was tried
  and returned NULL.
\<close>

theorem download_first_success:
  assumes sync: "va_status b (tr @ [VaSyncSurface (p_display (surface_p s)) (surface_id s)])
                   = VA_STATUS_SUCCESS"
    and reg: "image_formats (p_ctx (surface_p s)) = Some entries"
    and dl: "va_surface_download b s pool tr = (r, s', tr')"
  shows "(r \<noteq> Null \<longrightarrow>
            (\<exists>tried fmt rest s1 tr1. download_candidates s entries = tried @ fmt # rest
               \<and> failed_attempts b tried pool s
                    (tr @ [VaSyncSurface (p_display (surface_p s)) (surface_id s)]) = Some (s1, tr1)
               \<and> try_download b s1 fmt pool tr1 = (r, s', tr')))
       \<and> (r = Null \<longrightarrow>
            failed_attempts b (download_candidates s entries) pool s
              (tr @ [VaSyncSurface (p_display (surface_p s)) (surface_id s)]) = Some (s', tr'))"
proof -
  let ?tr1 = "tr @ [VaSyncSurface (p_display (surface_p s)) (surface_id s)]"
  let ?cached = "format (p_image (surface_p s))"
  show ?thesis
  proof (cases "image_id (p_image (surface_p s)) \<noteq> VA_INVALID_ID")
    case False
    then have c: "download_candidates s entries = entries" by (simp add: download_candidates_def)
    from dl sync reg False have "download_scan b entries pool s ?tr1 = (r, s', tr')"
      by (simp add: va_surface_download_def Let_def check_va_status_def)
    from download_scan_first [OF this] c show ?thesis by simp
  next
    case True
    then have c: "download_candidates s entries = ?cached # entries"
      by (simp add: download_candidates_def)
    obtain r2 s2 tr2 where fast: "try_download b s ?cached pool ?tr1 = (r2, s2, tr2)"
      by (cases "try_download b s ?cached pool ?tr1") auto
    show ?thesis
    proof (cases "r2 = Null")
      case False
      with dl sync reg True fast have eq: "r = r2" "s' = s2" "tr' = tr2"
        by (cases r2; simp add: va_surface_download_def Let_def check_va_status_def)+
      from fast eq c have "download_candidates s entries = [] @ ?cached # entries
               \<and> failed_attempts b [] pool s ?tr1 = Some (s, ?tr1)
               \<and> try_download b s ?cached pool ?tr1 = (r, s', tr')" by simp
      then have "\<exists>tried fmt rest s1 tr1. download_candidates s entries = tried @ fmt # rest
               \<and> failed_attempts b tried pool s ?tr1 = Some (s1, tr1)
               \<and> try_download b s1 fmt pool tr1 = (r, s', tr')" by blast
      with False eq show ?thesis by simp
    next
      case null: True
      with dl sync reg True fast have sc: "download_scan b entries pool s2 tr2 = (r, s', tr')"
        by (simp add: va_surface_download_def Let_def check_va_status_def)
      note f = download_scan_first [OF sc]
      have fa: "failed_attempts b (?cached # xs) pool s ?tr1 = failed_attempts b xs pool s2 tr2" for xs
        using fast null by simp
      show ?thesis
      proof (intro conjI impI)
        assume "r \<noteq> Null"
        with f obtain tried fmt rest s3 tr3 where
          "entries = tried @ fmt # rest" "failed_attempts b tried pool s2 tr2 = Some (s3, tr3)"
          "try_download b s3 fmt pool tr3 = (r, s', tr')" by blast
        then have "download_candidates s entries = (?cached # tried) @ fmt # rest
               \<and> failed_attempts b (?cached # tried) pool s ?tr1 = Some (s3, tr3)
               \<and> try_download b s3 fmt pool tr3 = (r, s', tr')"
          using fa c by simp
        then show "\<exists>tried fmt rest s1 tr1. download_candidates s entries = tried @ fmt # rest
               \<and> failed_attempts b tried pool s ?tr1 = Some (s1, tr1)
               \<and> try_download b s1 fmt pool tr1 = (r, s', tr')" by blast
      next
        assume "r = Null"
        with f fa c show "failed_attempts b (download_candidates s entries) pool s ?tr1
                            = Some (s', tr')" by simp
      qed
    qed
  qed
qed

lemma search_attempt_fails:
  assumes "fourcc f \<noteq> good" and "va_fourcc_to_imgfmt (fourcc f) \<noteq> IMGFMT_NONE"
  shows "try_download (fallback_backend good) (search_surface absent_image) f pool tr
           = (Null, search_surface absent_image, tr @ [VaDeriveImage 7 3, VaCreateImage 7 f 64 32])"
  using assms
  by (simp add: try_download_def view_defs search_surface_def example_defs)

lemma search_attempt_succeeds:
  "\<exists>tmp. try_download (fallback_backend VA_FOURCC_NV12) (search_surface absent_image) nv12_format
            None tr
         = (Ref (new_mp_image IMGFMT_NV12 64 32), search_surface example_image,
            tr @ [VaDeriveImage 7 3, VaCreateImage 7 nv12_format 64 32, VaGetImage 7 3 64 32 5,
                  VaMapBuffer 7 9, MpImageAlloc IMGFMT_NV12 64 32,
                  MpImageCopy (new_mp_image IMGFMT_NV12 64 32) tmp, VaUnmapBuffer 7 9])"
proof -
  have k: "va_fourcc_to_imgfmt (fourcc nv12_format) = IMGFMT_NV12"
    by (simp add: va_fourcc_to_imgfmt_def va_to_imgfmt_def fourcc_defs example_defs)
  have a: "va_surface_image_alloc (fallback_backend VA_FOURCC_NV12) (search_surface absent_image)
             (Some nv12_format) tr
           = (Some example_image, search_surface example_image,
              tr @ [VaDeriveImage 7 3, VaCreateImage 7 nv12_format 64 32])"
    by (simp add: view_defs search_surface_def example_defs)
  let ?tr2 = "tr @ [VaDeriveImage 7 3, VaCreateImage 7 nv12_format 64 32, VaGetImage 7 3 64 32 5]"
  obtain tmp where m: "va_image_map (fallback_backend VA_FOURCC_NV12)
        \<lparr>display = 7, image_formats = Some search_registry\<rparr> example_image ?tr2
      = (Some tmp, ?tr2 @ [VaMapBuffer 7 9])"
    by (simp add: va_image_map_def Let_def check_va_status_def k [unfolded nv12_format_def, simplified]
          example_defs)
  from va_image_map_Some [OF m] have f: "imgfmt tmp = IMGFMT_NV12"
    using k by (simp add: example_defs)
  from m have wh: "mpi_w tmp = 64 \<and> mpi_h tmp = 32"
    by (auto simp: va_image_map_def Let_def check_va_status_def map_planes_fields
          mp_image_set_size_def mp_image_setfmt_def swap_planes_1_2_def example_defs
          split: if_splits)
  have sel: "p_ctx (surface_p (search_surface example_image))
               = \<lparr>display = 7, image_formats = Some search_registry\<rparr>"
    "p_image (surface_p (search_surface example_image)) = example_image"
    "p_display (surface_p (search_surface example_image)) = 7"
    "surface_id (search_surface example_image) = 3"
    "surface_w (search_surface example_image) = 64" "surface_h (search_surface example_image) = 32"
    "\<not> is_derived (surface_p (search_surface example_image))"
    "image_id example_image = 5" "buf example_image = 9"
    by (simp_all add: search_surface_def example_defs)
  have g: "va_status (fallback_backend VA_FOURCC_NV12) ?tr2 = VA_STATUS_SUCCESS"
    by (simp add: example_defs)
  have "try_download (fallback_backend VA_FOURCC_NV12) (search_surface absent_image) nv12_format
            None tr
         = (Ref (new_mp_image IMGFMT_NV12 64 32), search_surface example_image,
            tr @ [VaDeriveImage 7 3, VaCreateImage 7 nv12_format 64 32, VaGetImage 7 3 64 32 5,
                  VaMapBuffer 7 9, MpImageAlloc IMGFMT_NV12 64 32,
                  MpImageCopy (new_mp_image IMGFMT_NV12 64 32) tmp, VaUnmapBuffer 7 9])"
    using g m by (simp add: try_download_def k a sel f wh va_image_unmap_def Let_def)
  then show ?thesis by blast
qed


lemma search_known:
  "va_fourcc_to_imgfmt (fourcc (format_of VA_FOURCC_RGBA)) \<noteq> IMGFMT_NONE"
  "va_fourcc_to_imgfmt (fourcc (format_of VA_FOURCC_BGRA)) \<noteq> IMGFMT_NONE"
  "va_fourcc_to_imgfmt (fourcc nv12_format) \<noteq> IMGFMT_NONE"
  "va_fourcc_to_imgfmt (fourcc (format_of VA_FOURCC_UYVY)) \<noteq> IMGFMT_NONE"
  by (simp_all add: va_fourcc_to_imgfmt_def va_to_imgfmt_def fourcc_defs format_of_def
        nv12_format_def)

lemma search_other:
  "fourcc (format_of VA_FOURCC_RGBA) \<noteq> VA_FOURCC_NV12"
  "fourcc (format_of VA_FOURCC_BGRA) \<noteq> VA_FOURCC_NV12"
  "fourcc (format_of VA_FOURCC_RGBA) \<noteq> VA_FOURCC_YV12"
  "fourcc (format_of VA_FOURCC_BGRA) \<noteq> VA_FOURCC_YV12"
  "fourcc nv12_format \<noteq> VA_FOURCC_YV12"
  "fourcc (format_of VA_FOURCC_UYVY) \<noteq> VA_FOURCC_YV12"
  by (simp_all add: fourcc_defs format_of_def nv12_format_def)

text \<open>
  A registry of RGBA, BGRA, NV12, UYVY on a driver that creates NV12 images only: the
  download returns the NV12 image and never asks for UYVY; on a driver that creates none
  of the four, it returns NULL after trying all.
\<close>

theorem download_first_success_witness:
  "va_status (fallback_backend VA_FOURCC_NV12) [VaSyncSurface 7 3] = VA_STATUS_SUCCESS
   \<and> image_formats (p_ctx (surface_p (search_surface absent_image))) = Some search_registry
   \<and> download_candidates (search_surface absent_image) search_registry
       = [format_of VA_FOURCC_RGBA, format_of VA_FOURCC_BGRA] @ nv12_format # [format_of VA_FOURCC_UYVY]
   \<and> fst (va_surface_download (fallback_backend VA_FOURCC_NV12) (search_surface absent_image) None [])
       = Ref (new_mp_image IMGFMT_NV12 64 32)
   \<and> (\<exists>tried fmt rest s1 tr1.
         download_candidates (search_surface absent_image) search_registry = tried @ fmt # rest
         \<and> failed_attempts (fallback_backend VA_FOURCC_NV12) tried None (search_surface absent_image)
              [VaSyncSurface 7 3] = Some (s1, tr1)
         \<and> try_download (fallback_backend VA_FOURCC_NV12) s1 fmt None tr1
             = va_surface_download (fallback_backend VA_FOURCC_NV12) (search_surface absent_image) None [])
   \<and> VaCreateImage 7 (format_of VA_FOURCC_UYVY) 64 32
       \<notin> set (snd (snd (va_surface_download (fallback_backend VA_FOURCC_NV12)
                          (search_surface absent_image) None [])))
   \<and> fst (va_surface_download (fallback_backend VA_FOURCC_YV12) (search_surface absent_image) None [])
       = Null
   \<and> failed_attempts (fallback_backend VA_FOURCC_YV12)
        (download_candidates (search_surface absent_image) search_registry) None
        (search_surface absent_image) [VaSyncSurface 7 3]
       = Some (snd (va_surface_download (fallback_backend VA_FOURCC_YV12)
                      (search_surface absent_image) None []))"
proof -
  let ?s = "search_surface absent_image"
  let ?b = "fallback_backend VA_FOURCC_NV12"
  let ?b2 = "fallback_backend VA_FOURCC_YV12"
  have sel: "p_display (surface_p ?s) = 7" "surface_id ?s = 3"
    "image_id (p_image (surface_p ?s)) = VA_INVALID_ID"
    by (simp_all add: search_surface_def example_defs)
  have sync: "va_status (fallback_backend good)
                ([] @ [VaSyncSurface (p_display (surface_p ?s)) (surface_id ?s)])
                = VA_STATUS_SUCCESS" for good
    by (simp add: sel) (simp add: example_defs)
  have reg: "image_formats (p_ctx (surface_p ?s)) = Some search_registry"
    by (simp add: search_surface_def)
  have cands: "download_candidates ?s search_registry = search_registry"
    by (simp add: download_candidates_def sel)
  obtain tmp where ok: "try_download ?b ?s nv12_format None
        [VaSyncSurface 7 3, VaDeriveImage 7 3, VaCreateImage 7 (format_of VA_FOURCC_RGBA) 64 32,
         VaDeriveImage 7 3, VaCreateImage 7 (format_of VA_FOURCC_BGRA) 64 32]
      = (Ref (new_mp_image IMGFMT_NV12 64 32), search_surface example_image,
         [VaSyncSurface 7 3, VaDeriveImage 7 3, VaCreateImage 7 (format_of VA_FOURCC_RGBA) 64 32,
          VaDeriveImage 7 3, VaCreateImage 7 (format_of VA_FOURCC_BGRA) 64 32,
          VaDeriveImage 7 3, VaCreateImage 7 nv12_format 64 32, VaGetImage 7 3 64 32 5,
          VaMapBuffer 7 9, MpImageAlloc IMGFMT_NV12 64 32,
          MpImageCopy (new_mp_image IMGFMT_NV12 64 32) tmp, VaUnmapBuffer 7 9])"
    using search_attempt_succeeds
      [of "[VaSyncSurface 7 3, VaDeriveImage 7 3, VaCreateImage 7 (format_of VA_FOURCC_RGBA) 64 32,
            VaDeriveImage 7 3, VaCreateImage 7 (format_of VA_FOURCC_BGRA) 64 32]"]
    by auto
  have d1: "va_surface_download ?b ?s None [] =
      (Ref (new_mp_image IMGFMT_NV12 64 32), search_surface example_image,
         [VaSyncSurface 7 3, VaDeriveImage 7 3, VaCreateImage 7 (format_of VA_FOURCC_RGBA) 64 32,
          VaDeriveImage 7 3, VaCreateImage 7 (format_of VA_FOURCC_BGRA) 64 32,
          VaDeriveImage 7 3, VaCreateImage 7 nv12_format 64 32, VaGetImage 7 3 64 32 5,
          VaMapBuffer 7 9, MpImageAlloc IMGFMT_NV12 64 32,
          MpImageCopy (new_mp_image IMGFMT_NV12 64 32) tmp, VaUnmapBuffer 7 9])"
    using sync [of VA_FOURCC_NV12]
    by (simp add: va_surface_download_def Let_def check_va_status_def sel reg search_registry_def
          search_attempt_fails search_known search_other ok)
  have d2: "va_surface_download ?b2 ?s None [] =
      (Null, ?s,
         [VaSyncSurface 7 3, VaDeriveImage 7 3, VaCreateImage 7 (format_of VA_FOURCC_RGBA) 64 32,
          VaDeriveImage 7 3, VaCreateImage 7 (format_of VA_FOURCC_BGRA) 64 32,
          VaDeriveImage 7 3, VaCreateImage 7 nv12_format 64 32,
          VaDeriveImage 7 3, VaCreateImage 7 (format_of VA_FOURCC_UYVY) 64 32])"
    using sync [of VA_FOURCC_YV12]
    by (simp add: va_surface_download_def Let_def check_va_status_def sel reg search_registry_def
          search_attempt_fails search_known search_other)
  note t1 = download_first_success [OF sync [of VA_FOURCC_NV12] reg d1]
  note t2 = download_first_success [OF sync [of VA_FOURCC_YV12] reg d2]
  from t1 have e1: "\<exists>tried fmt rest s1 tr1.
         download_candidates ?s search_registry = tried @ fmt # rest
         \<and> failed_attempts ?b tried None ?s [VaSyncSurface 7 3] = Some (s1, tr1)
         \<and> try_download ?b s1 fmt None tr1 = va_surface_download ?b ?s None []"
    by (simp add: sel d1)
  from t2 have e2: "failed_attempts ?b2 (download_candidates ?s search_registry) None ?s
        [VaSyncSurface 7 3] = Some (snd (va_surface_download ?b2 ?s None []))"
    by (simp add: sel d2)
  have c: "download_candidates ?s search_registry
       = [format_of VA_FOURCC_RGBA, format_of VA_FOURCC_BGRA] @ nv12_format # [format_of VA_FOURCC_UYVY]"
    using cands by (simp add: search_registry_def)
  have nu: "VaCreateImage 7 (format_of VA_FOURCC_UYVY) 64 32
       \<notin> set (snd (snd (va_surface_download ?b ?s None [])))"
    unfolding d1 by (simp add: format_of_def nv12_format_def fourcc_defs)
  from sync [of VA_FOURCC_NV12] reg c e1 e2 nu show ?thesis
    by (simp add: sel d1 d2)
qed

end
